theory Spec2Isabelle
  imports Main
begin

section \<open>Data model (api/models.py)\<close>

text \<open>
  Python strings are modelled as \<open>string\<close>; a character stands for one code point
  below 256, where the regular expression class \<open>\d\<close> is exactly \<open>0\<close>..\<open>9\<close>.
  Instants (\<open>datetime\<close>) are whole seconds, as integers. \<open>User\<close>, \<open>EmailAccount\<close>
  and the request models have the fields that \<open>models.py\<close> declares. The table
  \<open>PasswordResetToken\<close> is imported by \<open>main.py\<close> and declared nowhere: its fields are
  those that the code uses.
\<close>

datatype UserRole = ADMIN | DOMAIN_ADMIN | USER

record User =
  user_id :: int
  user_email :: string
  hashed_password :: string
  user_role :: UserRole
  user_domain :: "string option"
  is_active :: bool
  user_created_at :: int
  user_updated_at :: int

record EmailAccount =
  acct_id :: int
  username :: string
  acct_domain :: string
  quota_mb :: int
  created_by_user_id :: "int option"
  created_at :: int
  updated_at :: int
  deleted_at :: "int option"


section \<open>Exceptions\<close>

text \<open>
  A value of the remote response dictionary after \<open>_parse_response\<close> has collapsed
  one-element lists: a scalar or a list.
\<close>

datatype qval = Scalar string | Multi "string list"

text \<open>
  The exceptions that are not \<open>HTTPException\<close>. \<open>DirectAdminError message details\<close>
  is the client's own; the others are raised by Python or by the storage layer.
\<close>

datatype py_exception =
    DirectAdminError qval "qval option"
  | TypeError
  | IndexError
  | IntegrityError
  | ValueError
  | AttributeError

text \<open>
  The \<open>detail\<close> of an \<open>HTTPException\<close>: a text, the text
  \<open>f"DirectAdmin error: {e.message}"\<close>, or \<open>str(e)\<close> of another exception.
\<close>

datatype detail = Detail string | DirectAdmin_detail qval | Str_detail py_exception

datatype http_exception = HTTPException int detail

section \<open>Access control (api/permissions.py)\<close>

definition can_access_domain :: "User \<Rightarrow> string \<Rightarrow> bool" where
  "can_access_domain user domain =
     (if user_role user = ADMIN then True
      else if user_role user = DOMAIN_ADMIN then user_domain user = Some domain
      else False)"

definition check_domain_access :: "User \<Rightarrow> string \<Rightarrow> http_exception + unit" where
  "check_domain_access user domain =
     (if \<not> can_access_domain user domain
      then Inl (HTTPException 403 (Detail (''Access denied to domain: '' @ domain)))
      else Inr ())"

text \<open>Python truthiness of an optional string: neither \<open>None\<close> nor empty.\<close>

definition truthy :: "string option \<Rightarrow> bool" where
  "truthy s = (case s of None \<Rightarrow> False | Some v \<Rightarrow> v \<noteq> [])"

definition str_opt :: "string option \<Rightarrow> string" where
  "str_opt s = (case s of None \<Rightarrow> ''None'' | Some v \<Rightarrow> v)"

definition check_domain_param_tampering ::
  "User \<Rightarrow> string option \<Rightarrow> http_exception + unit" where
  "check_domain_param_tampering user requested_domain =
     (if user_role user = DOMAIN_ADMIN \<and> truthy requested_domain
      then (if requested_domain \<noteq> user_domain user
            then Inl (HTTPException 403
                   (Detail (''Access denied: domain_admin can only access ''
                            @ str_opt (user_domain user))))
            else Inr ())
      else Inr ())"

text \<open>\<open>a or b\<close> on an optional string and a string.\<close>

definition or_default :: "string option \<Rightarrow> string \<Rightarrow> string" where
  "or_default s d = (if truthy s then the s else d)"

definition get_effective_domain :: "User \<Rightarrow> string option \<Rightarrow> string \<Rightarrow> string" where
  "get_effective_domain user requested_domain default_domain =
     (if user_role user = DOMAIN_ADMIN then or_default (user_domain user) default_domain
      else if user_role user = ADMIN then or_default requested_domain default_domain
      else default_domain)"

section \<open>Password validation (api/main.py)\<close>

definition is_upper :: "char \<Rightarrow> bool" where
  "is_upper c = ((65::nat) \<le> of_char c \<and> (of_char c :: nat) \<le> 90)"

definition is_lower :: "char \<Rightarrow> bool" where
  "is_lower c = ((97::nat) \<le> of_char c \<and> (of_char c :: nat) \<le> 122)"

definition is_digit :: "char \<Rightarrow> bool" where
  "is_digit c = ((48::nat) \<le> of_char c \<and> (of_char c :: nat) \<le> 57)"

text \<open>\<open>re.search\<close> with a one-character class: some character of the string is in it.\<close>

definition re_search :: "(char \<Rightarrow> bool) \<Rightarrow> string \<Rightarrow> bool" where
  "re_search cls s = list_ex cls s"

definition msg_length :: string where
  "msg_length = ''Password must be at least 8 characters long''"

definition msg_upper :: string where
  "msg_upper = ''Password must contain at least one uppercase letter''"

definition msg_lower :: string where
  "msg_lower = ''Password must contain at least one lowercase letter''"

definition msg_digit :: string where
  "msg_digit = ''Password must contain at least one number''"

definition validate_password :: "string \<Rightarrow> http_exception + unit" where
  "validate_password password =
     (if length password < 8 then Inl (HTTPException 400 (Detail msg_length))
      else if \<not> re_search is_upper password then Inl (HTTPException 400 (Detail msg_upper))
      else if \<not> re_search is_lower password then Inl (HTTPException 400 (Detail msg_lower))
      else if \<not> re_search is_digit password then Inl (HTTPException 400 (Detail msg_digit))
      else Inr ())"

text \<open>
  The rule list as the specification words it: the checks in the order length,
  uppercase, lowercase, digit, each with its message; the first rule that a password
  breaks gives the one message of the failure.
\<close>

definition password_rules :: "((string \<Rightarrow> bool) \<times> string) list" where
  "password_rules =
     [(\<lambda>p. 8 \<le> length p, msg_length),
      (\<lambda>p. list_ex is_upper p, msg_upper),
      (\<lambda>p. list_ex is_lower p, msg_lower),
      (\<lambda>p. list_ex is_digit p, msg_digit)]"

fun first_failing :: "((string \<Rightarrow> bool) \<times> string) list \<Rightarrow> string \<Rightarrow> string option" where
  "first_failing [] p = None"
| "first_failing ((ok, msg) # rules) p = (if ok p then first_failing rules p else Some msg)"

definition spec_validate :: "string \<Rightarrow> http_exception + unit" where
  "spec_validate p =
     (case first_failing password_rules p of
        None \<Rightarrow> Inr ()
      | Some msg \<Rightarrow> Inl (HTTPException 400 (Detail msg)))"

section \<open>Token service (api/auth.py)\<close>

text \<open>
  \<open>jwt.encode\<close> and \<open>jwt.decode\<close> are functions of the library python-jose. They are
  modelled by what they do with a token. \<open>encode\<close> signs the claims with a MAC under
  the key; the MAC is a parameter. \<open>decode\<close> raises \<open>JWTError\<close> on a malformed token
  and on a token whose tag is not the MAC of its claims, and then validates the
  registered claims, with no audience, issuer, subject or access token given and no
  leeway:
  \<^item> \<open>iat\<close>, \<open>nbf\<close> and \<open>exp\<close> are converted with \<open>int()\<close>, whose \<open>ValueError\<close> becomes
    \<open>JWTClaimsError\<close>; \<open>int()\<close> on a string is a parameter (\<open>None\<close> for \<open>ValueError\<close>);
  \<^item> \<open>nbf\<close> after the current time raises \<open>JWTClaimsError\<close>;
  \<^item> \<open>exp\<close> before the current time (\<open>exp < now\<close>) raises \<open>ExpiredSignatureError\<close>: a
    token is still accepted in the second of its expiry;
  \<^item> a claim \<open>aud\<close> or \<open>at_hash\<close>, and a claim \<open>sub\<close> or \<open>jti\<close> that is not a string,
    raise \<open>JWTClaimsError\<close>.
  \<open>ExpiredSignatureError\<close> and \<open>JWTClaimsError\<close> are subclasses of \<open>JWTError\<close>. The
  current time and the claim \<open>exp\<close> are whole seconds.
\<close>

datatype jval = JInt int | JStr string

type_synonym claims = "string \<rightharpoonup> jval"

datatype 'sig jwt = Signed claims 'sig | Malformed string

datatype jwt_error = JWTError | ExpiredSignatureError | JWTClaimsError

definition jwt_encode :: "(string \<Rightarrow> claims \<Rightarrow> 'sig) \<Rightarrow> claims \<Rightarrow> string \<Rightarrow> 'sig jwt" where
  "jwt_encode mac payload key = Signed payload (mac key payload)"

definition int_claim :: "(string \<Rightarrow> int option) \<Rightarrow> jval \<Rightarrow> int option" where
  "int_claim py_int v = (case v of JInt i \<Rightarrow> Some i | JStr x \<Rightarrow> py_int x)"

definition is_str :: "jval \<Rightarrow> bool" where
  "is_str v = (case v of JInt i \<Rightarrow> False | JStr x \<Rightarrow> True)"

definition validate_claims :: "(string \<Rightarrow> int option) \<Rightarrow> int \<Rightarrow> claims \<Rightarrow> jwt_error option" where
  "validate_claims py_int now payload =
     (if (case payload ''iat'' of None \<Rightarrow> False | Some v \<Rightarrow> int_claim py_int v = None)
      then Some JWTClaimsError
      else if (case payload ''nbf'' of
                 None \<Rightarrow> False
               | Some v \<Rightarrow> (case int_claim py_int v of None \<Rightarrow> True | Some nbf \<Rightarrow> nbf > now))
      then Some JWTClaimsError
      else if (case payload ''exp'' of None \<Rightarrow> False | Some v \<Rightarrow> int_claim py_int v = None)
      then Some JWTClaimsError
      else if (case payload ''exp'' of
                 None \<Rightarrow> False
               | Some v \<Rightarrow> (case int_claim py_int v of None \<Rightarrow> False | Some exp \<Rightarrow> exp < now))
      then Some ExpiredSignatureError
      else if payload ''aud'' \<noteq> None then Some JWTClaimsError
      else if (case payload ''sub'' of None \<Rightarrow> False | Some v \<Rightarrow> \<not> is_str v)
      then Some JWTClaimsError
      else if (case payload ''jti'' of None \<Rightarrow> False | Some v \<Rightarrow> \<not> is_str v)
      then Some JWTClaimsError
      else if payload ''at_hash'' \<noteq> None then Some JWTClaimsError
      else None)"

definition jwt_decode ::
  "(string \<Rightarrow> claims \<Rightarrow> 'sig) \<Rightarrow> (string \<Rightarrow> int option) \<Rightarrow> int \<Rightarrow> 'sig jwt \<Rightarrow> string
   \<Rightarrow> jwt_error + claims" where
  "jwt_decode mac py_int now tok key =
     (case tok of
        Malformed raw \<Rightarrow> Inl JWTError
      | Signed payload tag \<Rightarrow>
          if tag \<noteq> mac key payload then Inl JWTError
          else (case validate_claims py_int now payload of
                  Some err \<Rightarrow> Inl err
                | None \<Rightarrow> Inr payload))"

text \<open>A \<open>timedelta\<close> is a number of seconds; \<open>timedelta(0)\<close> is falsy.\<close>

definition timedelta_truthy :: "int option \<Rightarrow> bool" where
  "timedelta_truthy d = (case d of None \<Rightarrow> False | Some secs \<Rightarrow> secs \<noteq> 0)"

definition expiry :: "int \<Rightarrow> int \<Rightarrow> int option \<Rightarrow> int" where
  "expiry jwt_expire_minutes now expires_delta =
     (if timedelta_truthy expires_delta then now + the expires_delta
      else now + 60 * jwt_expire_minutes)"

definition create_access_token ::
  "(string \<Rightarrow> claims \<Rightarrow> 'sig) \<Rightarrow> string \<Rightarrow> int \<Rightarrow> int \<Rightarrow> claims \<Rightarrow> int option \<Rightarrow> 'sig jwt" where
  "create_access_token mac jwt_secret jwt_expire_minutes now data expires_delta =
     (let to_encode = data(''exp'' \<mapsto> JInt (expiry jwt_expire_minutes now expires_delta))
      in jwt_encode mac to_encode jwt_secret)"

definition credentials_exception :: http_exception where
  "credentials_exception = HTTPException 401 (Detail ''Could not validate credentials'')"

definition decode_access_token ::
  "(string \<Rightarrow> claims \<Rightarrow> 'sig) \<Rightarrow> (string \<Rightarrow> int option) \<Rightarrow> string \<Rightarrow> int \<Rightarrow> 'sig jwt
   \<Rightarrow> http_exception + claims" where
  "decode_access_token mac py_int jwt_secret now tok =
     (case jwt_decode mac py_int now tok jwt_secret of
        Inl err \<Rightarrow> Inl credentials_exception
      | Inr payload \<Rightarrow> Inr payload)"

text \<open>The claims that \<open>login\<close> puts into a token.\<close>

definition role_value :: "UserRole \<Rightarrow> string" where
  "role_value r = (case r of ADMIN \<Rightarrow> ''admin'' | DOMAIN_ADMIN \<Rightarrow> ''domain_admin'' | USER \<Rightarrow> ''user'')"

definition token_data :: "int \<Rightarrow> string \<Rightarrow> UserRole \<Rightarrow> claims" where
  "token_data uid email role =
     [''user_id'' \<mapsto> JInt uid, ''email'' \<mapsto> JStr email, ''role'' \<mapsto> JStr (role_value role)]"

section \<open>Control-panel client (api/client.py)\<close>

text \<open>
  The outcome of one \<open>httpx.post\<close>: a transport error (\<open>httpx.RequestError\<close>, with
  its text) or a response with its status code and body. \<open>raise_for_status\<close>
  raises \<open>HTTPStatusError\<close> unless the status is 2xx.
\<close>

datatype http_outcome = RequestError string | Response int string

definition is_success :: "int \<Rightarrow> bool" where
  "is_success code = (200 \<le> code \<and> code \<le> 299)"

datatype pval = PStr string | PInt int

text \<open>
  What a request does to the world, in order: a POST (url and form data), a sleep of
  so many seconds, a lookup of a mailbox record (\<open>all\<close> rows or only the active ones),
  a commit, a notification mail, a log line.
\<close>

datatype effect =
    Post string "(string \<times> pval) list"
  | Sleep nat
  | Select string string bool
  | SelectActive string
  | Commit
  | Notify string
  | LogWarning py_exception

text \<open>
  The transport: the outcome of the POST number \<open>attempt\<close> of one \<open>_make_request\<close>
  call, given the url and the form data.
\<close>

type_synonym transport = "string \<Rightarrow> (string \<times> pval) list \<Rightarrow> int \<Rightarrow> http_outcome"

text \<open>\<open>urllib.parse.parse_qs\<close>, a library function, is a parameter: body to dictionary of lists.\<close>

type_synonym parse_qs = "string \<Rightarrow> (string \<rightharpoonup> string list)"

fun str_nat :: "nat \<Rightarrow> string" where
  "str_nat n =
     (if n < 10 then [char_of (48 + n)]
      else str_nat (n div 10) @ [char_of (48 + n mod 10)])"

definition str_int :: "int \<Rightarrow> string" where
  "str_int i = (if i < 0 then CHR ''-'' # str_nat (nat (- i)) else str_nat (nat i))"

definition flatten :: "string list \<Rightarrow> qval" where
  "flatten value = (if length value = 1 then Scalar (value ! 0) else Multi value)"

definition parse_response :: "parse_qs \<Rightarrow> string \<Rightarrow> py_exception + (string \<rightharpoonup> qval)" where
  "parse_response pq response_text =
     (let parsed = pq response_text;
          result = (\<lambda>key. map_option flatten (parsed key))
      in if result ''error'' = Some (Scalar ''1'')
         then Inl (DirectAdminError
                     (case result ''text'' of None \<Rightarrow> Scalar ''Unknown error'' | Some t \<Rightarrow> t)
                     (result ''details''))
         else Inr result)"

text \<open>
  The body of \<open>for attempt in range(max_retries)\<close>, over the attempts still to run.
  An exception of \<open>_parse_response\<close> is caught by neither handler and leaves the loop.
\<close>

fun attempts ::
  "parse_qs \<Rightarrow> transport \<Rightarrow> string \<Rightarrow> (string \<times> pval) list \<Rightarrow> int \<Rightarrow> int list
   \<Rightarrow> (py_exception + (string \<rightharpoonup> qval)) \<times> effect list" where
  "attempts pq post url params max_retries [] =
     (Inl (DirectAdminError (Scalar ''Max retries exceeded'') None), [])"
| "attempts pq post url params max_retries (attempt # rest) =
     (case post url params attempt of
        Response code text \<Rightarrow>
          if is_success code then (parse_response pq text, [Post url params])
          else if attempt = max_retries - 1
          then (Inl (DirectAdminError (Scalar (''HTTP '' @ str_int code)) (Some (Scalar text))),
                [Post url params])
          else (let (r, es) = attempts pq post url params max_retries rest
                in (r, Post url params # Sleep (2 ^ nat attempt) # es))
      | RequestError e \<Rightarrow>
          if attempt = max_retries - 1
          then (Inl (DirectAdminError (Scalar ''Network error'') (Some (Scalar e))),
                [Post url params])
          else (let (r, es) = attempts pq post url params max_retries rest
                in (r, Post url params # Sleep (2 ^ nat attempt) # es)))"

record DirectAdminClient =
  host :: string
  client_domain :: string

text \<open>\<open>host.rstrip("/")\<close> of the constructor.\<close>

definition rstrip_slash :: "string \<Rightarrow> string" where
  "rstrip_slash s = rev (dropWhile (\<lambda>c. c = CHR ''/'') (rev s))"

definition make_request ::
  "parse_qs \<Rightarrow> transport \<Rightarrow> DirectAdminClient \<Rightarrow> string \<Rightarrow> (string \<times> pval) list \<Rightarrow> int
   \<Rightarrow> (py_exception + (string \<rightharpoonup> qval)) \<times> effect list" where
  "make_request pq post self endpoint params max_retries =
     attempts pq post (host self @ ''/'' @ endpoint) params max_retries [0..max_retries - 1]"

text \<open>The default of the parameter \<open>max_retries\<close>, which every caller leaves as it is.\<close>

definition default_max_retries :: int where
  "default_max_retries = 3"

definition client_list_emails ::
  "parse_qs \<Rightarrow> transport \<Rightarrow> DirectAdminClient \<Rightarrow> (py_exception + string list) \<times> effect list" where
  "client_list_emails pq post self =
     (case make_request pq post self ''CMD_API_POP''
             [(''action'', PStr ''list''), (''domain'', PStr (client_domain self))]
             default_max_retries of
        (Inl e, es) \<Rightarrow> (Inl e, es)
      | (Inr response, es) \<Rightarrow>
          (Inr (case (case response ''list[]'' of
                        Some v \<Rightarrow> v
                      | None \<Rightarrow> (case response ''list'' of Some v \<Rightarrow> v | None \<Rightarrow> Multi []))
                of Scalar u \<Rightarrow> [u] | Multi us \<Rightarrow> us),
           es))"

definition client_create_email ::
  "parse_qs \<Rightarrow> transport \<Rightarrow> DirectAdminClient \<Rightarrow> string \<Rightarrow> string \<Rightarrow> int
   \<Rightarrow> (py_exception + unit) \<times> effect list" where
  "client_create_email pq post self uname password quota =
     (case make_request pq post self ''CMD_API_POP''
             [(''action'', PStr ''create''), (''domain'', PStr (client_domain self)),
              (''user'', PStr uname), (''passwd'', PStr password),
              (''passwd2'', PStr password), (''quota'', PInt quota)]
             default_max_retries of
        (Inl e, es) \<Rightarrow> (Inl e, es)
      | (Inr response, es) \<Rightarrow> (Inr (), es))"

definition client_delete_email ::
  "parse_qs \<Rightarrow> transport \<Rightarrow> DirectAdminClient \<Rightarrow> string
   \<Rightarrow> (py_exception + unit) \<times> effect list" where
  "client_delete_email pq post self uname =
     (case make_request pq post self ''CMD_API_POP''
             [(''action'', PStr ''delete''), (''domain'', PStr (client_domain self)),
              (''user'', PStr uname)]
             default_max_retries of
        (Inl e, es) \<Rightarrow> (Inl e, es)
      | (Inr response, es) \<Rightarrow> (Inr (), es))"

text \<open>
  \<open>change_password(self, username, new_password)\<close> takes its positional arguments as
  a list: Python binds them before the body runs, and a call with another number of
  arguments raises \<open>TypeError\<close> there, with no request made.
\<close>

definition client_change_password ::
  "parse_qs \<Rightarrow> transport \<Rightarrow> DirectAdminClient \<Rightarrow> pval list
   \<Rightarrow> (py_exception + unit) \<times> effect list" where
  "client_change_password pq post self args =
     (case args of
        [uname, new_password] \<Rightarrow>
          (case make_request pq post self ''CMD_CHANGE_EMAIL_PASSWORD''
                  [(''email'', uname), (''domain'', PStr (client_domain self)),
                   (''passwd'', new_password), (''passwd2'', new_password)]
                  default_max_retries of
             (Inl e, es) \<Rightarrow> (Inl e, es)
           | (Inr response, es) \<Rightarrow> (Inr (), es))
      | _ \<Rightarrow> (Inl TypeError, []))"

section \<open>Storage: the table \<open>email_accounts\<close>\<close>

text \<open>
  The table is the list of its rows in insertion order. \<open>.first()\<close> of a query is the
  first row that matches; a change to the object it returned is a change of that row.
  \<open>UniqueConstraint("username", "domain")\<close> spans every row, deleted or not: an
  insert whose pair is already in the table raises \<open>IntegrityError\<close>.
\<close>

type_synonym db = "EmailAccount list"

definition same_mailbox :: "string \<Rightarrow> string \<Rightarrow> EmailAccount \<Rightarrow> bool" where
  "same_mailbox u d a = (username a = u \<and> acct_domain a = d)"

definition active_mailbox :: "string \<Rightarrow> string \<Rightarrow> EmailAccount \<Rightarrow> bool" where
  "active_mailbox u d a = (username a = u \<and> acct_domain a = d \<and> deleted_at a = None)"

definition uq_username_domain :: "db \<Rightarrow> bool" where
  "uq_username_domain rows = distinct (map (\<lambda>a. (username a, acct_domain a)) rows)"

definition next_id :: "db \<Rightarrow> int" where
  "next_id rows = (if rows = [] then 1 else Max (set (map acct_id rows)) + 1)"

definition db_insert :: "EmailAccount \<Rightarrow> db \<Rightarrow> py_exception + EmailAccount \<times> db" where
  "db_insert new rows =
     (if list_ex (same_mailbox (username new) (acct_domain new)) rows then Inl IntegrityError
      else (let r = new\<lparr>acct_id := next_id rows\<rparr> in Inr (r, rows @ [r])))"

fun update_first :: "('a \<Rightarrow> bool) \<Rightarrow> ('a \<Rightarrow> 'a) \<Rightarrow> 'a list \<Rightarrow> 'a list" where
  "update_first P f [] = []"
| "update_first P f (x # xs) = (if P x then f x # xs else x # update_first P f xs)"

definition active_in_domain :: "string \<Rightarrow> db \<Rightarrow> EmailAccount list" where
  "active_in_domain d rows = filter (\<lambda>a. acct_domain a = d \<and> deleted_at a = None) rows"

section \<open>Mailbox endpoints (api/main.py)\<close>

text \<open>
  What an endpoint is given besides its request: the library parser, the transport,
  the clock (\<open>clock k\<close> is reading number \<open>k\<close> of \<open>datetime.utcnow()\<close> within the
  request), the password hash (bcrypt, salted), and the configuration
  (\<open>DIRECTADMIN_HOST\<close>, \<open>DEFAULT_DOMAIN\<close>, \<open>WEBMAIL_URL\<close>).
\<close>

record env =
  env_pq :: parse_qs
  env_post :: transport
  env_clock :: "nat \<Rightarrow> int"
  hash_password :: "string \<Rightarrow> string"
  directadmin_host :: string
  default_domain :: string
  webmail_url :: "string option"

definition get_da_client :: "env \<Rightarrow> string \<Rightarrow> DirectAdminClient" where
  "get_da_client e domain = \<lparr>host = rstrip_slash (directadmin_host e), client_domain = domain\<rparr>"

text \<open>
  The handlers at the end of each endpoint: a \<open>DirectAdminError\<close> becomes a 500 with
  its message, any other exception a 500 with \<open>str(e)\<close>.
\<close>

definition to_http :: "py_exception \<Rightarrow> http_exception" where
  "to_http e =
     (case e of
        DirectAdminError m d \<Rightarrow> HTTPException 500 (DirectAdmin_detail m)
      | _ \<Rightarrow> HTTPException 500 (Str_detail e))"

text \<open>
  The three guards that open every mailbox endpoint: tamper check, effective domain,
  access check. The result is the effective domain.
\<close>

definition guards :: "env \<Rightarrow> User \<Rightarrow> string option \<Rightarrow> http_exception + string" where
  "guards e current_user domain =
     (case check_domain_param_tampering current_user domain of
        Inl err \<Rightarrow> Inl err
      | Inr _ \<Rightarrow>
          (let effective_domain = get_effective_domain current_user domain (default_domain e)
           in case check_domain_access current_user effective_domain of
                Inl err \<Rightarrow> Inl err
              | Inr _ \<Rightarrow> Inr effective_domain))"

text \<open>
  The loop of \<open>list_emails\<close> over the remote usernames; \<open>n\<close> counts the clock
  readings so far. A new \<open>EmailAccount\<close> reads the clock twice (\<open>created_at\<close>,
  \<open>updated_at\<close>).
\<close>

definition ensure_not_deleted ::
  "(nat \<Rightarrow> int) \<Rightarrow> string \<Rightarrow> string \<Rightarrow> EmailAccount \<Rightarrow> db \<Rightarrow> nat \<Rightarrow> db \<times> nat" where
  "ensure_not_deleted clock u d db_email rows n =
     (if deleted_at db_email \<noteq> None
      then (update_first (same_mailbox u d)
              (\<lambda>a. a\<lparr>deleted_at := None, updated_at := clock n\<rparr>) rows, n + 1)
      else (rows, n))"

fun sync_loop ::
  "(nat \<Rightarrow> int) \<Rightarrow> string \<Rightarrow> string list \<Rightarrow> db \<Rightarrow> nat
   \<Rightarrow> (py_exception + db \<times> nat) \<times> effect list" where
  "sync_loop clock d [] rows n = (Inr (rows, n), [])"
| "sync_loop clock d (u # us) rows n =
     (case find (same_mailbox u d) rows of
        None \<Rightarrow>
          (case db_insert \<lparr>acct_id = 0, username = u, acct_domain = d, quota_mb = 1000,
                           created_by_user_id = None, created_at = clock n,
                           updated_at = clock (n + 1), deleted_at = None\<rparr> rows of
             Inl err \<Rightarrow> (Inl err, [Select u d False])
           | Inr (db_email, rows') \<Rightarrow>
               (let (rows'', n') = ensure_not_deleted clock u d db_email rows' (n + 2);
                    (r, es) = sync_loop clock d us rows'' n'
                in (r, Select u d False # es)))
      | Some db_email \<Rightarrow>
          (let (rows'', n') = ensure_not_deleted clock u d db_email rows n;
               (r, es) = sync_loop clock d us rows'' n'
           in (r, Select u d False # es)))"

definition list_emails ::
  "env \<Rightarrow> User \<Rightarrow> string option \<Rightarrow> db
   \<Rightarrow> (http_exception + EmailAccount list) \<times> db \<times> effect list" where
  "list_emails e current_user domain rows =
     (case guards e current_user domain of
        Inl err \<Rightarrow> (Inl err, rows, [])
      | Inr effective_domain \<Rightarrow>
          (case client_list_emails (env_pq e) (env_post e) (get_da_client e effective_domain) of
             (Inl err, es) \<Rightarrow> (Inl (to_http err), rows, es)
           | (Inr da_emails, es) \<Rightarrow>
               (case sync_loop (env_clock e) effective_domain da_emails rows 0 of
                  (Inl err, ss) \<Rightarrow> (Inl (to_http err), rows, es @ ss)
                | (Inr (rows', n), ss) \<Rightarrow>
                    (Inr (active_in_domain effective_domain rows'), rows',
                     es @ ss @ [Commit, SelectActive effective_domain]))))"

text \<open>The request body of \<open>POST /emails\<close>, as \<open>models.py\<close> declares it.\<close>

record CreateEmailRequest =
  req_username :: string
  req_password :: string
  req_quota_mb :: int
  req_domain :: "string option"

text \<open>
  \<open>request.notify_email\<close>: the request model declares no such field, and reading an
  attribute that a pydantic model does not have raises \<open>AttributeError\<close>.
\<close>

definition notify_email :: "CreateEmailRequest \<Rightarrow> py_exception + string option" where
  "notify_email request = Inl AttributeError"

definition create_email ::
  "env \<Rightarrow> CreateEmailRequest \<Rightarrow> User \<Rightarrow> db
   \<Rightarrow> (http_exception + EmailAccount) \<times> db \<times> effect list" where
  "create_email e request current_user rows =
     (case validate_password (req_password request) of
        Inl err \<Rightarrow> (Inl err, rows, [])
      | Inr _ \<Rightarrow>
     (case guards e current_user (req_domain request) of
        Inl err \<Rightarrow> (Inl err, rows, [])
      | Inr effective_domain \<Rightarrow>
     (case find (active_mailbox (req_username request) effective_domain) rows of
        Some existing \<Rightarrow>
          (Inl (HTTPException 409
                  (Detail (''Email '' @ req_username request @ ''@'' @ effective_domain
                           @ '' already exists''))),
           rows, [Select (req_username request) effective_domain True])
      | None \<Rightarrow>
     (case client_create_email (env_pq e) (env_post e) (get_da_client e effective_domain)
             (req_username request) (req_password request) (req_quota_mb request) of
        (Inl err, es) \<Rightarrow>
          (Inl (to_http err), rows, Select (req_username request) effective_domain True # es)
      | (Inr _, es) \<Rightarrow>
     (case db_insert \<lparr>acct_id = 0, username = req_username request,
                      acct_domain = effective_domain, quota_mb = req_quota_mb request,
                      created_by_user_id = Some (user_id current_user),
                      created_at = env_clock e 0, updated_at = env_clock e 1,
                      deleted_at = None\<rparr> rows of
        Inl err \<Rightarrow>
          (Inl (to_http err), rows, Select (req_username request) effective_domain True # es)
      | Inr (db_email, rows') \<Rightarrow>
     (case notify_email request of
        Inl err \<Rightarrow>
          (Inl (to_http err), rows',
           Select (req_username request) effective_domain True # es @ [Commit])
      | Inr address \<Rightarrow>
          (Inr db_email, rows',
           Select (req_username request) effective_domain True # es @ [Commit]
           @ (if truthy address then [Notify (the address)] else []))))))))"

definition delete_email ::
  "env \<Rightarrow> string \<Rightarrow> User \<Rightarrow> string option \<Rightarrow> db
   \<Rightarrow> (http_exception + string) \<times> db \<times> effect list" where
  "delete_email e uname current_user domain rows =
     (case guards e current_user domain of
        Inl err \<Rightarrow> (Inl err, rows, [])
      | Inr effective_domain \<Rightarrow>
     (case find (active_mailbox uname effective_domain) rows of
        None \<Rightarrow>
          (Inl (HTTPException 404
                  (Detail (''Email '' @ uname @ ''@'' @ effective_domain @ '' not found''))),
           rows, [Select uname effective_domain True])
      | Some db_email \<Rightarrow>
     (case client_delete_email (env_pq e) (env_post e) (get_da_client e effective_domain)
             uname of
        (Inl err, es) \<Rightarrow> (Inl (to_http err), rows, Select uname effective_domain True # es)
      | (Inr _, es) \<Rightarrow>
          (Inr (''Email '' @ uname @ ''@'' @ effective_domain @ '' deleted successfully''),
           update_first (active_mailbox uname effective_domain)
             (\<lambda>a. a\<lparr>deleted_at := Some (env_clock e 0), updated_at := env_clock e 1\<rparr>) rows,
           Select uname effective_domain True # es @ [Commit]))))"

definition change_password ::
  "env \<Rightarrow> string \<Rightarrow> string \<Rightarrow> User \<Rightarrow> string option \<Rightarrow> db
   \<Rightarrow> (http_exception + string) \<times> db \<times> effect list" where
  "change_password e uname new_password current_user domain rows =
     (case validate_password new_password of
        Inl err \<Rightarrow> (Inl err, rows, [])
      | Inr _ \<Rightarrow>
     (case guards e current_user domain of
        Inl err \<Rightarrow> (Inl err, rows, [])
      | Inr effective_domain \<Rightarrow>
     (case find (active_mailbox uname effective_domain) rows of
        None \<Rightarrow>
          (Inl (HTTPException 404
                  (Detail (''Email '' @ uname @ ''@'' @ effective_domain @ '' not found''))),
           rows, [Select uname effective_domain True])
      | Some db_email \<Rightarrow>
     (case client_change_password (env_pq e) (env_post e) (get_da_client e effective_domain)
             [PStr uname, PStr new_password] of
        (Inl err, es) \<Rightarrow> (Inl (to_http err), rows, Select uname effective_domain True # es)
      | (Inr _, es) \<Rightarrow>
          (Inr (''Password updated for '' @ uname @ ''@'' @ effective_domain),
           update_first (active_mailbox uname effective_domain)
             (\<lambda>a. a\<lparr>updated_at := env_clock e 0\<rparr>) rows,
           Select uname effective_domain True # es @ [Commit])))))"

section \<open>Password reset form (api/main.py)\<close>









section \<open>Auxiliary notions for the statements\<close>

text \<open>
  The first row of a mailbox (deleted or not) exists and is active: what the loop of
  \<open>list_emails\<close> establishes for every remote username.
\<close>

definition active_first :: "string \<Rightarrow> string \<Rightarrow> db \<Rightarrow> bool" where
  "active_first u d rows =
     (case find (same_mailbox u d) rows of None \<Rightarrow> False | Some r \<Rightarrow> deleted_at r = None)"

text \<open>
  An attempt failed when the transport raised or the status is not 2xx;
  \<open>failure_error\<close> is the \<open>DirectAdminError\<close> that the last failed attempt raises.
\<close>

definition failed :: "http_outcome \<Rightarrow> bool" where
  "failed out = (case out of RequestError e \<Rightarrow> True | Response code text \<Rightarrow> \<not> is_success code)"

definition failure_error :: "http_outcome \<Rightarrow> py_exception" where
  "failure_error out =
     (case out of
        RequestError e \<Rightarrow> DirectAdminError (Scalar ''Network error'') (Some (Scalar e))
      | Response code text \<Rightarrow>
          DirectAdminError (Scalar (''HTTP '' @ str_int code)) (Some (Scalar text)))"

definition body_of :: "http_outcome \<Rightarrow> string" where
  "body_of out = (case out of RequestError e \<Rightarrow> [] | Response code text \<Rightarrow> text)"

text \<open>The exception that \<open>check_domain_param_tampering\<close> raises for a user.\<close>

definition forbidden_tamper :: "User \<Rightarrow> http_exception" where
  "forbidden_tamper u =
     HTTPException 403
       (Detail (''Access denied: domain_admin can only access '' @ str_opt (user_domain u)))"

text \<open>
  The tables that the four mailbox endpoints can produce from the empty table, whatever
  the requests, the callers and the world.
\<close>

inductive reachable :: "db \<Rightarrow> bool" where
  start: "reachable []"
| listed: "reachable rows \<Longrightarrow> reachable (fst (snd (list_emails e u d rows)))"
| created: "reachable rows \<Longrightarrow> reachable (fst (snd (create_email e req u rows)))"
| deleted: "reachable rows \<Longrightarrow> reachable (fst (snd (delete_email e uname u d rows)))"
| changed: "reachable rows \<Longrightarrow> reachable (fst (snd (change_password e uname pw u d rows)))"

section \<open>A concrete world\<close>

text \<open>
  One configuration, its users, requests and rows, on which the statements are
  evaluated: a control panel at \<open>da.example.com\<close> that answers every POST with 200 and
  a list of two mailboxes, a clock that starts at 1000, the default domain \<open>x.com\<close>.
\<close>

definition example_pq :: parse_qs where
  "example_pq body =
     (if body = ''list[]=alice&list[]=bob'' then [''list[]'' \<mapsto> [''alice'', ''bob'']]
      else if body = ''error=1&text=quota+exceeded''
      then [''error'' \<mapsto> [''1''], ''text'' \<mapsto> [''quota exceeded'']]
      else Map.empty)"

definition example_env :: env where
  "example_env =
     \<lparr>env_pq = example_pq,
      env_post = (\<lambda>url params attempt. Response 200 ''list[]=alice&list[]=bob''),
      env_clock = (\<lambda>k. 1000 + int k),
      hash_password = (\<lambda>p. ''bcrypt:'' @ p),
      directadmin_host = ''https://da.example.com:2222/'',
      default_domain = ''x.com'',
      webmail_url = None\<rparr>"

definition example_admin :: User where
  "example_admin =
     \<lparr>user_id = 1, user_email = ''root@x.com'', hashed_password = ''bcrypt:old'',
      user_role = ADMIN, user_domain = None, is_active = True,
      user_created_at = 0, user_updated_at = 0\<rparr>"

definition alice_deleted :: EmailAccount where
  "alice_deleted =
     \<lparr>acct_id = 1, username = ''alice'', acct_domain = ''x.com'', quota_mb = 500,
      created_by_user_id = Some 1, created_at = 10, updated_at = 20, deleted_at = Some 20\<rparr>"

definition example_rows1 :: db where
  "example_rows1 =
     [alice_deleted\<lparr>deleted_at := None, updated_at := 1000\<rparr>,
      \<lparr>acct_id = 2, username = ''bob'', acct_domain = ''x.com'', quota_mb = 1000,
       created_by_user_id = None, created_at = 1001, updated_at = 1002, deleted_at = None\<rparr>]"

definition example_trace :: "effect list" where
  "example_trace =
     [Post ''https://da.example.com:2222/CMD_API_POP''
        [(''action'', PStr ''list''), (''domain'', PStr ''x.com'')],
      Select ''alice'' ''x.com'' False, Select ''bob'' ''x.com'' False,
      Commit, SelectActive ''x.com'']"

text \<open>
  The transport of the scenario "HTTP 500 twice, then HTTP 200 with an error body".
\<close>

definition scenario_post :: transport where
  "scenario_post url params attempt =
     (if attempt < 2 then Response 500 ''Internal Server Error''
      else Response 200 ''error=1&text=quota+exceeded'')"

definition create_alice :: CreateEmailRequest where
  "create_alice =
     \<lparr>req_username = ''alice'', req_password = ''TestPass123!'', req_quota_mb = 500,
      req_domain = None\<rparr>"

definition alice :: EmailAccount where
  "alice =
     \<lparr>acct_id = 1, username = ''alice'', acct_domain = ''x.com'', quota_mb = 500,
      created_by_user_id = Some 1, created_at = 1000, updated_at = 1001, deleted_at = None\<rparr>"

definition env_down :: env where
  "env_down = example_env\<lparr>env_post := \<lambda>url params attempt. RequestError ''connection refused''\<rparr>"

definition alice_soft_deleted :: EmailAccount where
  "alice_soft_deleted = alice\<lparr>deleted_at := Some 1000, updated_at := 1001\<rparr>"

definition example_domain_admin :: User where
  "example_domain_admin =
     \<lparr>user_id = 2, user_email = ''ops@a.com'', hashed_password = ''bcrypt:old'',
      user_role = DOMAIN_ADMIN, user_domain = Some ''a.com'', is_active = True,
      user_created_at = 0, user_updated_at = 0\<rparr>"

definition weak_request :: CreateEmailRequest where
  "weak_request =
     \<lparr>req_username = ''mallory'', req_password = ''testpass123!'', req_quota_mb = 500,
      req_domain = Some ''b.com''\<rparr>"




text \<open>A stand-in for \<open>int()\<close> on the strings of the examples.\<close>

definition example_int :: "string \<Rightarrow> int option" where
  "example_int x = (if x = ''4600'' then Some 4600 else None)"

definition example_mac :: "string \<Rightarrow> claims \<Rightarrow> string \<times> jval option \<times> jval option" where
  "example_mac key payload = (key, payload ''user_id'', payload ''exp'')"

section \<open>Properties\<close>

subsection \<open>Access-control decision\<close>

text \<open>
  C1. For every identity and every domain: with role admin the decision is true; with
  role domain_admin it is true exactly when the requested domain is the identity's
  assigned domain; with role user it is false.
\<close>

theorem can_access_domain_by_role:
  "can_access_domain (u\<lparr>user_role := ADMIN\<rparr>) d
   \<and> (can_access_domain (u\<lparr>user_role := DOMAIN_ADMIN\<rparr>) d = (user_domain u = Some d))
   \<and> \<not> can_access_domain (u\<lparr>user_role := USER\<rparr>) d
   \<and> can_access_domain u d =
       (case user_role u of ADMIN \<Rightarrow> True
        | DOMAIN_ADMIN \<Rightarrow> user_domain u = Some d
        | USER \<Rightarrow> False)"
  by (cases "user_role u") (simp_all add: can_access_domain_def)

subsection \<open>Password validation\<close>

lemma validate_password_refines: "validate_password p = spec_validate p"
  by (simp add: validate_password_def spec_validate_def password_rules_def re_search_def)

lemma validate_testpass: "validate_password ''testpass123!'' = Inl (HTTPException 400 (Detail msg_upper))"
  by (simp add: validate_password_def re_search_def is_upper_def)

text \<open>
  C9. Password validation applies its checks in the order length, uppercase, lowercase,
  digit, and the first failing check gives the one message; the password
  \<open>testpass123!\<close> is rejected with the uppercase message.
\<close>

theorem validate_password_first_failing_wins:
  "validate_password p = spec_validate p
   \<and> validate_password ''testpass123!''
       = Inl (HTTPException 400 (Detail ''Password must contain at least one uppercase letter''))"
  using validate_password_refines validate_testpass by (simp add: msg_upper_def)

subsection \<open>Control-panel client\<close>

lemma upto3: "[0..(2::int)] = [0,1,2]"
  by (simp add: upto_rec1)

lemma make_request_three:
  "make_request pq post c ep params default_max_retries =
     (let url = host c @ ''/'' @ ep; p = Post url params in
      if \<not> failed (post url params 0)
      then (parse_response pq (body_of (post url params 0)), [p])
      else if \<not> failed (post url params 1)
      then (parse_response pq (body_of (post url params 1)), [p, Sleep 1, p])
      else if \<not> failed (post url params 2)
      then (parse_response pq (body_of (post url params 2)), [p, Sleep 1, p, Sleep 2, p])
      else (Inl (failure_error (post url params 2)), [p, Sleep 1, p, Sleep 2, p]))"
  by (simp add: make_request_def default_max_retries_def upto3 failed_def failure_error_def
      body_of_def Let_def split: http_outcome.splits)

lemma flatten_one: "(flatten v = Scalar s) = (v = [s])"
  by (cases v) (auto simp: flatten_def)

lemma parse_response_error:
  "parse_response pq text =
     (if pq text ''error'' = Some [''1'']
      then Inl (DirectAdminError
                 (case pq text ''text'' of None \<Rightarrow> Scalar ''Unknown error'' | Some t \<Rightarrow> flatten t)
                 (map_option flatten (pq text ''details'')))
      else Inr (\<lambda>key. map_option flatten (pq text key)))"
  by (auto simp: parse_response_def Let_def flatten_one split: option.splits)

lemma scenario_run:
  "make_request example_pq scenario_post c ep params default_max_retries
   = (Inl (DirectAdminError (Scalar ''quota exceeded'') None),
      [Post (host c @ ''/'' @ ep) params, Sleep 1, Post (host c @ ''/'' @ ep) params, Sleep 2,
       Post (host c @ ''/'' @ ep) params])"
  by (simp add: make_request_three scenario_post_def failed_def is_success_def body_of_def
      parse_response_error example_pq_def flatten_def Let_def)

lemma first_attempt_error_not_retried:
  "make_request example_pq (\<lambda>url params attempt. Response 200 ''error=1&text=quota+exceeded'')
     c ep params default_max_retries
   = (Inl (DirectAdminError (Scalar ''quota exceeded'') None), [Post (host c @ ''/'' @ ep) params])"
  by (simp add: make_request_three failed_def is_success_def body_of_def
      parse_response_error example_pq_def flatten_def Let_def)

lemma attempts_posts_bound:
  "length (filter (\<lambda>e. case e of Post u p \<Rightarrow> True | _ \<Rightarrow> False)
             (snd (attempts pq post url params m as))) \<le> length as"
  by (induction as) (auto split: http_outcome.splits prod.splits)

text \<open>
  C4. With the default \<open>max_retries = 3\<close> a request is posted at most three times: an
  attempt that fails (transport error or status outside 2xx) is followed by a sleep of
  \<open>2 ^ attempt\<close> seconds (1, then 2) and the next attempt; after the third failure
  the call raises the \<open>DirectAdminError\<close> of that last failure (\<open>HTTP <status>\<close> with
  the body, or \<open>Network error\<close> with the transport's text). The first 2xx response ends
  the loop: its body is decoded, and a decoded \<open>error = 1\<close> raises
  \<open>DirectAdminError\<close> with the body's \<open>text\<close> (or \<open>Unknown error\<close>) and \<open>details\<close>,
  with no further attempt. In the scenario 500, 500, 200 with
  \<open>error=1&text=quota+exceeded\<close> the call posts three times, sleeps 1 and 2 seconds,
  and raises \<open>DirectAdminError("quota exceeded")\<close>.
\<close>

theorem make_request_retry_policy:
  "default_max_retries = 3
   \<and> make_request pq post c ep params default_max_retries =
     (let url = host c @ ''/'' @ ep; p = Post url params in
      if \<not> failed (post url params 0)
      then (parse_response pq (body_of (post url params 0)), [p])
      else if \<not> failed (post url params 1)
      then (parse_response pq (body_of (post url params 1)), [p, Sleep (2 ^ 0), p])
      else if \<not> failed (post url params 2)
      then (parse_response pq (body_of (post url params 2)),
            [p, Sleep (2 ^ 0), p, Sleep (2 ^ 1), p])
      else (Inl (failure_error (post url params 2)), [p, Sleep (2 ^ 0), p, Sleep (2 ^ 1), p]))
   \<and> parse_response pq text =
     (if pq text ''error'' = Some [''1'']
      then Inl (DirectAdminError
                 (case pq text ''text'' of None \<Rightarrow> Scalar ''Unknown error'' | Some t \<Rightarrow> flatten t)
                 (map_option flatten (pq text ''details'')))
      else Inr (\<lambda>key. map_option flatten (pq text key)))
   \<and> make_request example_pq scenario_post c ep params default_max_retries
     = (Inl (DirectAdminError (Scalar ''quota exceeded'') None),
        [Post (host c @ ''/'' @ ep) params, Sleep 1, Post (host c @ ''/'' @ ep) params, Sleep 2,
         Post (host c @ ''/'' @ ep) params])
   \<and> make_request example_pq (\<lambda>url params attempt. Response 200 ''error=1&text=quota+exceeded'')
        c ep params default_max_retries
     = (Inl (DirectAdminError (Scalar ''quota exceeded'') None),
        [Post (host c @ ''/'' @ ep) params])"
proof (intro conjI)
  show "default_max_retries = 3" by (simp add: default_max_retries_def)
  show "make_request pq post c ep params default_max_retries =
     (let url = host c @ ''/'' @ ep; p = Post url params in
      if \<not> failed (post url params 0)
      then (parse_response pq (body_of (post url params 0)), [p])
      else if \<not> failed (post url params 1)
      then (parse_response pq (body_of (post url params 1)), [p, Sleep (2 ^ 0), p])
      else if \<not> failed (post url params 2)
      then (parse_response pq (body_of (post url params 2)),
            [p, Sleep (2 ^ 0), p, Sleep (2 ^ 1), p])
      else (Inl (failure_error (post url params 2)), [p, Sleep (2 ^ 0), p, Sleep (2 ^ 1), p]))"
    by (simp add: make_request_three Let_def)
qed (rule parse_response_error scenario_run first_attempt_error_not_retried)+

subsection \<open>Storage and reconciliation lemmas\<close>

lemma find_append:
  "find P (xs @ ys) = (case find P xs of None \<Rightarrow> find P ys | Some x \<Rightarrow> Some x)"
  by (induction xs) auto

lemma find_None_list_ex: "(find P xs = None) = (\<not> list_ex P xs)"
  by (induction xs) auto

lemma db_insert_total:
  "find (same_mailbox (username new) (acct_domain new)) rows = None
   \<Longrightarrow> db_insert new rows = Inr (new\<lparr>acct_id := next_id rows\<rparr>, rows @ [new\<lparr>acct_id := next_id rows\<rparr>])"
  by (simp add: db_insert_def find_None_list_ex Let_def)

lemma active_first_update:
  assumes "active_first u d rows"
  shows "active_first u d
           (update_first (same_mailbox u' d') (\<lambda>a. a\<lparr>deleted_at := None, updated_at := t\<rparr>) rows)"
  using assms
  by (induction rows) (auto simp: active_first_def same_mailbox_def)

lemma active_first_append:
  "active_first u d rows \<Longrightarrow> active_first u d (rows @ extra)"
  by (auto simp: active_first_def find_append split: option.splits)

lemma update_first_clears:
  "find (same_mailbox u d) rows = Some r
   \<Longrightarrow> active_first u d
         (update_first (same_mailbox u d) (\<lambda>a. a\<lparr>deleted_at := None, updated_at := t\<rparr>) rows)"
  by (induction rows) (auto simp: active_first_def same_mailbox_def split: if_splits)

lemma sync_loop_noop:
  "\<forall>u \<in> set us. active_first u d rows
   \<Longrightarrow> sync_loop clock d us rows n = (Inr (rows, n), map (\<lambda>u. Select u d False) us)"
  by (induction us) (auto simp: active_first_def ensure_not_deleted_def split: option.splits)

lemma sync_loop_keeps_active:
  "sync_loop clock d us rows n = (Inr (rows', n'), es) \<Longrightarrow> active_first u d rows
   \<Longrightarrow> active_first u d rows'"
proof (induction us arbitrary: rows n es)
  case Nil
  then show ?case by simp
next
  case (Cons v us)
  show ?case
  proof (cases "find (same_mailbox v d) rows")
    case None
    let ?new = "\<lparr>acct_id = next_id rows, username = v, acct_domain = d, quota_mb = 1000,
                  created_by_user_id = None, created_at = clock n,
                  updated_at = clock (n + 1), deleted_at = None\<rparr>"
    from None Cons.prems(1)
    have "sync_loop clock d us (rows @ [?new]) (n + 2) = (Inr (rows', n'), tl es)"
      by (auto simp: db_insert_total ensure_not_deleted_def split: prod.splits)
    moreover have "active_first u d (rows @ [?new])"
      using Cons.prems(2) by (rule active_first_append)
    ultimately show ?thesis by (rule Cons.IH)
  next
    case (Some r)
    show ?thesis
    proof (cases "deleted_at r = None")
      case True
      with Some Cons.prems(1)
      have "sync_loop clock d us rows n = (Inr (rows', n'), tl es)"
        by (auto simp: ensure_not_deleted_def split: prod.splits)
      then show ?thesis using Cons.prems(2) by (rule Cons.IH)
    next
      case False
      let ?rows = "update_first (same_mailbox v d)
                     (\<lambda>a. a\<lparr>deleted_at := None, updated_at := clock n\<rparr>) rows"
      from False Some Cons.prems(1)
      have "sync_loop clock d us ?rows (n + 1) = (Inr (rows', n'), tl es)"
        by (auto simp: ensure_not_deleted_def split: prod.splits)
      moreover have "active_first u d ?rows"
        using Cons.prems(2) by (rule active_first_update)
      ultimately show ?thesis by (rule Cons.IH)
    qed
  qed
qed


lemma sync_loop_step:
  "sync_loop clock d (v # us) rows n = (Inr (rows', n'), es)
   \<Longrightarrow> \<exists>rows1 n1 es1. active_first v d rows1
         \<and> sync_loop clock d us rows1 n1 = (Inr (rows', n'), es1)"
proof (cases "find (same_mailbox v d) rows")
  case None
  assume run: "sync_loop clock d (v # us) rows n = (Inr (rows', n'), es)"
  let ?new = "\<lparr>acct_id = next_id rows, username = v, acct_domain = d, quota_mb = 1000,
                created_by_user_id = None, created_at = clock n,
                updated_at = clock (n + 1), deleted_at = None\<rparr>"
  from None run
  have "sync_loop clock d us (rows @ [?new]) (n + 2) = (Inr (rows', n'), tl es)"
    by (auto simp: db_insert_total ensure_not_deleted_def split: prod.splits)
  moreover have "active_first v d (rows @ [?new])"
    using None by (simp add: active_first_def find_append same_mailbox_def)
  ultimately show ?thesis by blast
next
  case (Some r)
  assume run: "sync_loop clock d (v # us) rows n = (Inr (rows', n'), es)"
  show ?thesis
  proof (cases "deleted_at r = None")
    case True
    with Some run have "sync_loop clock d us rows n = (Inr (rows', n'), tl es)"
      by (auto simp: ensure_not_deleted_def split: prod.splits)
    moreover have "active_first v d rows"
      using Some True by (simp add: active_first_def)
    ultimately show ?thesis by blast
  next
    case False
    let ?rows = "update_first (same_mailbox v d)
                   (\<lambda>a. a\<lparr>deleted_at := None, updated_at := clock n\<rparr>) rows"
    from False Some run
    have "sync_loop clock d us ?rows (n + 1) = (Inr (rows', n'), tl es)"
      by (auto simp: ensure_not_deleted_def split: prod.splits)
    moreover have "active_first v d ?rows"
      using Some by (rule update_first_clears)
    ultimately show ?thesis by blast
  qed
qed

lemma sync_loop_all_active:
  "sync_loop clock d us rows n = (Inr (rows', n'), es)
   \<Longrightarrow> \<forall>u \<in> set us. active_first u d rows'"
proof (induction us arbitrary: rows n es)
  case Nil
  then show ?case by simp
next
  case (Cons v us)
  from sync_loop_step [OF Cons.prems]
  obtain rows1 n1 es1 where a: "active_first v d rows1"
    and r: "sync_loop clock d us rows1 n1 = (Inr (rows', n'), es1)"
    by blast
  from r have "\<forall>u \<in> set us. active_first u d rows'" by (rule Cons.IH)
  moreover from r a have "active_first v d rows'" by (rule sync_loop_keeps_active)
  ultimately show ?case by simp
qed

lemma sync_loop_total:
  "\<exists>rows' n'. sync_loop clock d us rows n = (Inr (rows', n'), map (\<lambda>u. Select u d False) us)"
proof (induction us arbitrary: rows n)
  case Nil
  then show ?case by simp
next
  case (Cons v us)
  show ?case
  proof (cases "find (same_mailbox v d) rows")
    case None
    let ?new = "\<lparr>acct_id = next_id rows, username = v, acct_domain = d, quota_mb = 1000,
                  created_by_user_id = None, created_at = clock n,
                  updated_at = clock (n + 1), deleted_at = None\<rparr>"
    from Cons.IH [of "rows @ [?new]" "n + 2"] None show ?thesis
      by (auto simp: db_insert_total ensure_not_deleted_def)
  next
    case (Some r)
    show ?thesis
    proof (cases "deleted_at r = None")
      case True
      with Cons.IH [of rows n] Some show ?thesis
        by (auto simp: ensure_not_deleted_def)
    next
      case False
      with Cons.IH [of "update_first (same_mailbox v d)
                   (\<lambda>a. a\<lparr>deleted_at := None, updated_at := clock n\<rparr>) rows" "n + 1"] Some
      show ?thesis
        by (auto simp: ensure_not_deleted_def)
    qed
  qed
qed

subsection \<open>Reconciliation\<close>

text \<open>
  C5. Reconciliation is idempotent: when a pass of \<open>GET /emails\<close> has succeeded and
  the remote list is the same at the next pass (whatever the clock and the transport
  do otherwise), the second pass succeeds, returns the same records and leaves the
  table exactly as the first pass left it: no insert and no update.
\<close>

theorem list_emails_idempotent:
  assumes first: "list_emails e1 user domain rows = (Inr out1, rows1, es1)"
    and cfg: "default_domain e2 = default_domain e1"
    and remote: "fst (client_list_emails (env_pq e2) (env_post e2)
                        (get_da_client e2 (get_effective_domain user domain (default_domain e1))))
                 = fst (client_list_emails (env_pq e1) (env_post e1)
                        (get_da_client e1 (get_effective_domain user domain (default_domain e1))))"
  shows "\<exists>es2. list_emails e2 user domain rows1 = (Inr out1, rows1, es2)"
proof -
  let ?d = "get_effective_domain user domain (default_domain e1)"
  from first have g1: "guards e1 user domain = Inr ?d"
    by (auto simp: list_emails_def guards_def Let_def split: sum.splits)
  then have g2: "guards e2 user domain = Inr ?d"
    unfolding guards_def cfg .
  from first g1 obtain us ces1 where
    c1: "client_list_emails (env_pq e1) (env_post e1) (get_da_client e1 ?d) = (Inr us, ces1)"
    by (auto simp: list_emails_def split: sum.splits prod.splits)
  with remote obtain ces2 where
    c2: "client_list_emails (env_pq e2) (env_post e2) (get_da_client e2 ?d) = (Inr us, ces2)"
    by (cases "client_list_emails (env_pq e2) (env_post e2) (get_da_client e2 ?d)") auto
  from first g1 c1 obtain n1 ss1 where
    s1: "sync_loop (env_clock e1) ?d us rows 0 = (Inr (rows1, n1), ss1)"
    and o1: "out1 = active_in_domain ?d rows1"
    by (auto simp: list_emails_def split: sum.splits prod.splits)
  from s1 have "\<forall>u \<in> set us. active_first u ?d rows1" by (rule sync_loop_all_active)
  then have "sync_loop (env_clock e2) ?d us rows1 0
             = (Inr (rows1, 0), map (\<lambda>u. Select u ?d False) us)"
    by (rule sync_loop_noop)
  with g2 c2 o1 show ?thesis by (simp add: list_emails_def)
qed


lemma find_filter: "find P xs = (case filter P xs of [] \<Rightarrow> None | x # _ \<Rightarrow> Some x)"
  by (induction xs) auto

lemma filter_update_other:
  "u \<noteq> v \<or> d \<noteq> d'
   \<Longrightarrow> filter (same_mailbox u d)
         (update_first (same_mailbox v d') (\<lambda>a. a\<lparr>deleted_at := x, updated_at := t\<rparr>) rows)
       = filter (same_mailbox u d) rows"
  by (induction rows) (auto simp: same_mailbox_def)

lemma filter_update_same:
  "filter (same_mailbox u d) rows = r # rest
   \<Longrightarrow> filter (same_mailbox u d)
         (update_first (same_mailbox u d) (\<lambda>a. a\<lparr>deleted_at := x, updated_at := t\<rparr>) rows)
       = r\<lparr>deleted_at := x, updated_at := t\<rparr> # rest"
  by (induction rows) (auto simp: same_mailbox_def split: if_splits)

lemma uq_filter:
  "uq_username_domain rows \<Longrightarrow> r \<in> set rows
   \<Longrightarrow> filter (same_mailbox (username r) (acct_domain r)) rows = [r]"
proof (induction rows)
  case Nil
  then show ?case by simp
next
  case (Cons a rows)
  show ?case
  proof (cases "a = r")
    case True
    have "filter (same_mailbox (username r) (acct_domain r)) rows = []"
      using Cons.prems(1) True
      by (auto simp: uq_username_domain_def same_mailbox_def filter_empty_conv image_iff)
    moreover have "same_mailbox (username r) (acct_domain r) r"
      by (simp add: same_mailbox_def)
    ultimately show ?thesis using True by simp
  next
    case False
    with Cons.prems have "r \<in> set rows" by simp
    moreover from Cons.prems(1) have "uq_username_domain rows"
      by (simp add: uq_username_domain_def)
    ultimately have "filter (same_mailbox (username r) (acct_domain r)) rows = [r]"
      by (rule Cons.IH[rotated])
    moreover have "\<not> same_mailbox (username r) (acct_domain r) a"
      using Cons.prems(1) \<open>r \<in> set rows\<close>
      by (auto simp: uq_username_domain_def same_mailbox_def image_iff)
    ultimately show ?thesis by simp
  qed
qed

lemma sync_loop_frame_active:
  "sync_loop clock d us rows n = (Inr (rows', n'), es)
   \<Longrightarrow> filter (same_mailbox u d) rows = [r] \<Longrightarrow> deleted_at r = None
   \<Longrightarrow> filter (same_mailbox u d) rows' = [r]"
proof (induction us arbitrary: rows n es)
  case Nil
  then show ?case by simp
next
  case (Cons v us)
  have fr: "find (same_mailbox u d) rows = Some r"
    using Cons.prems(2) by (simp add: find_filter)
  show ?case
  proof (cases "find (same_mailbox v d) rows")
    case None
    with fr have ne: "v \<noteq> u" by auto
    let ?new = "\<lparr>acct_id = next_id rows, username = v, acct_domain = d, quota_mb = 1000,
                  created_by_user_id = None, created_at = clock n,
                  updated_at = clock (n + 1), deleted_at = None\<rparr>"
    from None Cons.prems(1)
    have "sync_loop clock d us (rows @ [?new]) (n + 2) = (Inr (rows', n'), tl es)"
      by (auto simp: db_insert_total ensure_not_deleted_def split: prod.splits)
    moreover have "filter (same_mailbox u d) (rows @ [?new]) = [r]"
    proof -
      have "\<not> same_mailbox u d ?new" using ne by (simp add: same_mailbox_def)
      with Cons.prems(2) show ?thesis by simp
    qed
    ultimately show ?thesis using Cons.prems(3) by (rule Cons.IH)
  next
    case (Some r1)
    show ?thesis
    proof (cases "deleted_at r1 = None")
      case True
      with Some Cons.prems(1)
      have "sync_loop clock d us rows n = (Inr (rows', n'), tl es)"
        by (auto simp: ensure_not_deleted_def split: prod.splits)
      then show ?thesis using Cons.prems(2,3) by (rule Cons.IH)
    next
      case False
      with Some fr Cons.prems(3) have ne: "u \<noteq> v" by auto
      let ?rows = "update_first (same_mailbox v d)
                     (\<lambda>a. a\<lparr>deleted_at := None, updated_at := clock n\<rparr>) rows"
      from False Some Cons.prems(1)
      have "sync_loop clock d us ?rows (n + 1) = (Inr (rows', n'), tl es)"
        by (auto simp: ensure_not_deleted_def split: prod.splits)
      moreover have "filter (same_mailbox u d) ?rows = [r]"
        using ne Cons.prems(2) by (simp add: filter_update_other)
      ultimately show ?thesis using Cons.prems(3) by (rule Cons.IH)
    qed
  qed
qed

lemma sync_loop_resurrects:
  "sync_loop clock d us rows n = (Inr (rows', n'), es)
   \<Longrightarrow> filter (same_mailbox u d) rows = [r] \<Longrightarrow> deleted_at r \<noteq> None \<Longrightarrow> u \<in> set us
   \<Longrightarrow> \<exists>k. filter (same_mailbox u d) rows' = [r\<lparr>deleted_at := None, updated_at := clock k\<rparr>]"
proof (induction us arbitrary: rows n es)
  case Nil
  then show ?case by simp
next
  case (Cons v us)
  have fr: "find (same_mailbox u d) rows = Some r"
    using Cons.prems(2) by (simp add: find_filter)
  show ?case
  proof (cases "v = u")
    case True
    let ?rows = "update_first (same_mailbox u d)
                   (\<lambda>a. a\<lparr>deleted_at := None, updated_at := clock n\<rparr>) rows"
    from True fr Cons.prems(1,3)
    have "sync_loop clock d us ?rows (n + 1) = (Inr (rows', n'), tl es)"
      by (auto simp: ensure_not_deleted_def split: prod.splits)
    moreover have "filter (same_mailbox u d) ?rows
                   = [r\<lparr>deleted_at := None, updated_at := clock n\<rparr>]"
      using Cons.prems(2) by (simp add: filter_update_same)
    ultimately have "filter (same_mailbox u d) rows'
                     = [r\<lparr>deleted_at := None, updated_at := clock n\<rparr>]"
      by (rule sync_loop_frame_active) simp
    then show ?thesis by blast
  next
    case False
    with Cons.prems(4) have mem: "u \<in> set us" by simp
    show ?thesis
    proof (cases "find (same_mailbox v d) rows")
      case None
      let ?new = "\<lparr>acct_id = next_id rows, username = v, acct_domain = d, quota_mb = 1000,
                    created_by_user_id = None, created_at = clock n,
                    updated_at = clock (n + 1), deleted_at = None\<rparr>"
      from None Cons.prems(1)
      have "sync_loop clock d us (rows @ [?new]) (n + 2) = (Inr (rows', n'), tl es)"
        by (auto simp: db_insert_total ensure_not_deleted_def split: prod.splits)
      moreover have "filter (same_mailbox u d) (rows @ [?new]) = [r]"
      proof -
        have "\<not> same_mailbox u d ?new" using False by (simp add: same_mailbox_def)
        with Cons.prems(2) show ?thesis by simp
      qed
      ultimately show ?thesis using Cons.prems(3) mem by (rule Cons.IH)
    next
      case (Some r1)
      show ?thesis
      proof (cases "deleted_at r1 = None")
        case True
        with Some Cons.prems(1)
        have "sync_loop clock d us rows n = (Inr (rows', n'), tl es)"
          by (auto simp: ensure_not_deleted_def split: prod.splits)
        then show ?thesis using Cons.prems(2,3) mem by (rule Cons.IH)
      next
        case del: False
        let ?rows = "update_first (same_mailbox v d)
                       (\<lambda>a. a\<lparr>deleted_at := None, updated_at := clock n\<rparr>) rows"
        from del Some Cons.prems(1)
        have "sync_loop clock d us ?rows (n + 1) = (Inr (rows', n'), tl es)"
          by (auto simp: ensure_not_deleted_def split: prod.splits)
        moreover have "filter (same_mailbox u d) ?rows = [r]"
          using False Cons.prems(2) by (simp add: filter_update_other)
        ultimately show ?thesis using Cons.prems(3) mem by (rule Cons.IH)
      qed
    qed
  qed
qed

subsection \<open>The concrete run\<close>

lemma example_client_list:
  "client_list_emails example_pq (env_post example_env) (get_da_client example_env ''x.com'')
   = (Inr [''alice'', ''bob''],
      [Post ''https://da.example.com:2222/CMD_API_POP''
         [(''action'', PStr ''list''), (''domain'', PStr ''x.com'')]])"
  by (simp add: client_list_emails_def make_request_def default_max_retries_def upto3
      example_env_def example_pq_def get_da_client_def rstrip_slash_def is_success_def
      parse_response_def flatten_def Let_def)

lemma example_guards: "guards example_env example_admin None = Inr ''x.com''"
  by (simp add: guards_def check_domain_param_tampering_def get_effective_domain_def
      check_domain_access_def can_access_domain_def example_env_def example_admin_def
      truthy_def or_default_def)

lemma example_sync:
  "sync_loop (\<lambda>k. 1000 + int k) ''x.com'' [''alice'', ''bob''] [alice_deleted] 0
   = (Inr ([alice_deleted\<lparr>deleted_at := None, updated_at := 1000\<rparr>,
            \<lparr>acct_id = 2, username = ''bob'', acct_domain = ''x.com'', quota_mb = 1000,
             created_by_user_id = None, created_at = 1001, updated_at = 1002,
             deleted_at = None\<rparr>], 3),
      [Select ''alice'' ''x.com'' False, Select ''bob'' ''x.com'' False])"
  by (simp add: alice_deleted_def same_mailbox_def ensure_not_deleted_def db_insert_def
      next_id_def Let_def)

lemma example_list_emails:
  "list_emails example_env example_admin None [alice_deleted]
   = (Inr [alice_deleted\<lparr>deleted_at := None, updated_at := 1000\<rparr>,
            \<lparr>acct_id = 2, username = ''bob'', acct_domain = ''x.com'', quota_mb = 1000,
             created_by_user_id = None, created_at = 1001, updated_at = 1002,
             deleted_at = None\<rparr>],
      [alice_deleted\<lparr>deleted_at := None, updated_at := 1000\<rparr>,
            \<lparr>acct_id = 2, username = ''bob'', acct_domain = ''x.com'', quota_mb = 1000,
             created_by_user_id = None, created_at = 1001, updated_at = 1002,
             deleted_at = None\<rparr>],
      [Post ''https://da.example.com:2222/CMD_API_POP''
         [(''action'', PStr ''list''), (''domain'', PStr ''x.com'')],
       Select ''alice'' ''x.com'' False, Select ''bob'' ''x.com'' False,
       Commit, SelectActive ''x.com''])"
proof -
  have c: "client_list_emails (env_pq example_env) (env_post example_env)
             (get_da_client example_env ''x.com'')
           = (Inr [''alice'', ''bob''],
              [Post ''https://da.example.com:2222/CMD_API_POP''
                 [(''action'', PStr ''list''), (''domain'', PStr ''x.com'')]])"
    using example_client_list by (simp add: example_env_def)
  have s: "sync_loop (env_clock example_env) ''x.com'' [''alice'', ''bob''] [alice_deleted] 0
           = (Inr ([alice_deleted\<lparr>deleted_at := None, updated_at := 1000\<rparr>,
            \<lparr>acct_id = 2, username = ''bob'', acct_domain = ''x.com'', quota_mb = 1000,
             created_by_user_id = None, created_at = 1001, updated_at = 1002,
             deleted_at = None\<rparr>], 3),
      [Select ''alice'' ''x.com'' False, Select ''bob'' ''x.com'' False])"
    using example_sync by (simp add: example_env_def)
  show ?thesis
    apply (simp only: list_emails_def example_guards sum.case c prod.case s)
    apply (simp add: active_in_domain_def alice_deleted_def)
    done
qed

lemma example_first_pass:
  "list_emails example_env example_admin None [alice_deleted]
   = (Inr example_rows1, example_rows1, example_trace)"
  using example_list_emails by (simp add: example_rows1_def example_trace_def)

lemma example_eff: "get_effective_domain example_admin None (default_domain example_env) = ''x.com''"
  by (simp add: get_effective_domain_def example_admin_def example_env_def or_default_def truthy_def)

theorem list_emails_idempotent_witness:
  "list_emails example_env example_admin None [alice_deleted]
     = (Inr example_rows1, example_rows1, example_trace)
   \<and> (\<exists>es2. list_emails (example_env\<lparr>env_clock := \<lambda>k. 5000 + int k\<rparr>) example_admin None
               example_rows1
             = (Inr example_rows1, example_rows1, es2))"
  using list_emails_idempotent [OF example_first_pass,
      of "example_env\<lparr>env_clock := \<lambda>k. 5000 + int k\<rparr>"] example_first_pass
  by (simp add: get_da_client_def)

subsection \<open>Resurrection\<close>

text \<open>
  C6. Resurrection frame property: when a soft-deleted record of the effective domain
  has its username in the remote list, a successful pass leaves exactly one row for
  that mailbox, the old row with \<open>deleted_at\<close> cleared and \<open>updated_at\<close> set to a
  clock reading of the pass; its id, creator, quota and creation time are unchanged,
  and the row is among the records returned.
\<close>

theorem list_emails_resurrects:
  assumes run: "list_emails e user domain rows = (Inr out, rows', es)"
    and uq: "uq_username_domain rows"
    and mem: "r \<in> set rows"
    and del: "deleted_at r \<noteq> None"
    and dom: "acct_domain r = get_effective_domain user domain (default_domain e)"
    and remote: "fst (client_list_emails (env_pq e) (env_post e)
                        (get_da_client e (acct_domain r))) = Inr us"
    and listed: "username r \<in> set us"
  shows "\<exists>k r'. filter (same_mailbox (username r) (acct_domain r)) rows' = [r']
           \<and> r' = r\<lparr>deleted_at := None, updated_at := env_clock e k\<rparr>
           \<and> r' \<in> set out
           \<and> acct_id r' = acct_id r \<and> created_by_user_id r' = created_by_user_id r
           \<and> quota_mb r' = quota_mb r \<and> created_at r' = created_at r"
proof -
  let ?d = "acct_domain r"
  from run have g: "guards e user domain = Inr ?d"
    by (auto simp: list_emails_def guards_def Let_def dom split: sum.splits)
  from run g remote obtain ces where
    c: "client_list_emails (env_pq e) (env_post e) (get_da_client e ?d) = (Inr us, ces)"
    by (cases "client_list_emails (env_pq e) (env_post e) (get_da_client e ?d)") auto
  from run g c obtain n ss where
    s: "sync_loop (env_clock e) ?d us rows 0 = (Inr (rows', n), ss)"
    and o: "out = active_in_domain ?d rows'"
    by (auto simp: list_emails_def split: sum.splits prod.splits)
  from uq mem have "filter (same_mailbox (username r) ?d) rows = [r]" by (rule uq_filter)
  with s obtain k where
    f: "filter (same_mailbox (username r) ?d) rows'
        = [r\<lparr>deleted_at := None, updated_at := env_clock e k\<rparr>]"
    using del listed sync_loop_resurrects by blast
  then have "r\<lparr>deleted_at := None, updated_at := env_clock e k\<rparr>
             \<in> set (filter (same_mailbox (username r) ?d) rows')"
    by simp
  then have "r\<lparr>deleted_at := None, updated_at := env_clock e k\<rparr> \<in> set out"
    by (simp add: o active_in_domain_def)
  with f show ?thesis by (intro exI [of _ k] exI [of _ "r\<lparr>deleted_at := None, updated_at := env_clock e k\<rparr>"]) simp
qed

theorem list_emails_resurrects_witness:
  "\<exists>k r'. filter (same_mailbox ''alice'' ''x.com'') example_rows1 = [r']
      \<and> r' = alice_deleted\<lparr>deleted_at := None, updated_at := env_clock example_env k\<rparr>
      \<and> r' \<in> set example_rows1
      \<and> acct_id r' = 1 \<and> created_by_user_id r' = Some 1 \<and> quota_mb r' = 500 \<and> created_at r' = 10"
proof -
  have uq: "uq_username_domain [alice_deleted]" by (simp add: uq_username_domain_def)
  have mem: "alice_deleted \<in> set [alice_deleted]" by simp
  have del: "deleted_at alice_deleted \<noteq> None" by (simp add: alice_deleted_def)
  have dom: "acct_domain alice_deleted
             = get_effective_domain example_admin None (default_domain example_env)"
    by (simp add: example_eff alice_deleted_def)
  have remote: "fst (client_list_emails (env_pq example_env) (env_post example_env)
                  (get_da_client example_env (acct_domain alice_deleted))) = Inr [''alice'', ''bob'']"
    using example_client_list by (simp add: example_env_def alice_deleted_def)
  have listed: "username alice_deleted \<in> set [''alice'', ''bob'']"
    by (simp add: alice_deleted_def)
  from list_emails_resurrects [OF example_first_pass uq mem del dom remote listed]
  show ?thesis by (simp add: alice_deleted_def)
qed

subsection \<open>The uniqueness constraint is an invariant\<close>

lemma update_first_keys:
  "(\<And>a. username (f a) = username a \<and> acct_domain (f a) = acct_domain a)
   \<Longrightarrow> map (\<lambda>a. (username a, acct_domain a)) (update_first P f rows)
       = map (\<lambda>a. (username a, acct_domain a)) rows"
  by (induction rows) auto

lemma update_first_ids:
  "(\<And>a. acct_id (f a) = acct_id a)
   \<Longrightarrow> map acct_id (update_first P f rows) = map acct_id rows"
  by (induction rows) auto

lemma uq_update_first:
  "(\<And>a. username (f a) = username a \<and> acct_domain (f a) = acct_domain a)
   \<Longrightarrow> uq_username_domain (update_first P f rows) = uq_username_domain rows"
  by (simp add: uq_username_domain_def update_first_keys)

lemma uq_db_insert:
  "db_insert new rows = Inr (r, rows') \<Longrightarrow> uq_username_domain rows \<Longrightarrow> uq_username_domain rows'"
proof -
  assume ins: "db_insert new rows = Inr (r, rows')" and uq: "uq_username_domain rows"
  from ins have no: "\<not> list_ex (same_mailbox (username new) (acct_domain new)) rows"
    and r': "rows' = rows @ [new\<lparr>acct_id := next_id rows\<rparr>]"
    by (auto simp: db_insert_def Let_def split: if_splits)
  from no have "(username new, acct_domain new)
                \<notin> (\<lambda>a. (username a, acct_domain a)) ` set rows"
    by (auto simp: list_ex_iff same_mailbox_def)
  with uq r' show ?thesis by (simp add: uq_username_domain_def)
qed

lemma ensure_not_deleted_uq:
  "ensure_not_deleted clock u d r rows n = (rows', n')
   \<Longrightarrow> uq_username_domain rows' = uq_username_domain rows"
  by (auto simp: ensure_not_deleted_def uq_update_first split: if_splits)

lemma sync_loop_uq:
  "sync_loop clock d us rows n = (Inr (rows', n'), es) \<Longrightarrow> uq_username_domain rows
   \<Longrightarrow> uq_username_domain rows'"
proof (induction us arbitrary: rows n es)
  case Nil
  then show ?case by simp
next
  case (Cons v us)
  show ?case
  proof (cases "find (same_mailbox v d) rows")
    case None
    let ?new = "\<lparr>acct_id = 0, username = v, acct_domain = d, quota_mb = 1000,
                  created_by_user_id = None, created_at = clock n,
                  updated_at = clock (n + 1), deleted_at = None\<rparr>"
    from None have ins: "db_insert ?new rows
        = Inr (?new\<lparr>acct_id := next_id rows\<rparr>, rows @ [?new\<lparr>acct_id := next_id rows\<rparr>])"
      by (simp add: db_insert_total)
    with None Cons.prems(1)
    have "sync_loop clock d us (rows @ [?new\<lparr>acct_id := next_id rows\<rparr>]) (n + 2)
          = (Inr (rows', n'), tl es)"
      by (auto simp: ensure_not_deleted_def split: prod.splits)
    moreover have "uq_username_domain (rows @ [?new\<lparr>acct_id := next_id rows\<rparr>])"
      using ins Cons.prems(2) by (rule uq_db_insert)
    ultimately show ?thesis by (rule Cons.IH)
  next
    case (Some r)
    obtain rows1 n1 where e: "ensure_not_deleted clock v d r rows n = (rows1, n1)"
      by (cases "ensure_not_deleted clock v d r rows n")
    with Some Cons.prems(1) have "sync_loop clock d us rows1 n1 = (Inr (rows', n'), tl es)"
      by (auto split: prod.splits)
    moreover have "uq_username_domain rows1"
      using ensure_not_deleted_uq [OF e] Cons.prems(2) by simp
    ultimately show ?thesis by (rule Cons.IH)
  qed
qed

lemma list_emails_uq:
  "uq_username_domain rows \<Longrightarrow> uq_username_domain (fst (snd (list_emails e u d rows)))"
  by (auto simp: list_emails_def sync_loop_uq split: sum.splits prod.splits)

lemma create_email_uq:
  "uq_username_domain rows \<Longrightarrow> uq_username_domain (fst (snd (create_email e req u rows)))"
  by (auto simp: create_email_def uq_db_insert split: sum.splits prod.splits option.splits)

lemma delete_email_uq:
  "uq_username_domain rows \<Longrightarrow> uq_username_domain (fst (snd (delete_email e uname u d rows)))"
  by (auto simp: delete_email_def uq_update_first split: sum.splits prod.splits option.splits)

lemma change_password_uq:
  "uq_username_domain rows
   \<Longrightarrow> uq_username_domain (fst (snd (change_password e uname pw u d rows)))"
  by (auto simp: change_password_def uq_update_first split: sum.splits prod.splits option.splits)

lemma reachable_uq: "reachable rows \<Longrightarrow> uq_username_domain rows"
  by (induction rule: reachable.induct)
     (simp_all add: uq_username_domain_def [of "[]"] list_emails_uq create_email_uq
        delete_email_uq change_password_uq)

lemma uq_active_unique:
  "uq_username_domain rows
   \<Longrightarrow> distinct (map (\<lambda>a. (username a, acct_domain a)) (filter (\<lambda>a. deleted_at a = None) rows))"
  by (simp add: uq_username_domain_def distinct_map_filter)

lemma soft_delete_leaves_none_active:
  "uq_username_domain rows \<Longrightarrow> find (active_mailbox u d) rows = Some r
   \<Longrightarrow> find (active_mailbox u d)
         (update_first (active_mailbox u d) (\<lambda>a. a\<lparr>deleted_at := Some t, updated_at := t'\<rparr>) rows)
       = None"
proof (induction rows)
  case Nil
  then show ?case by simp
next
  case (Cons a rows)
  show ?case
  proof (cases "active_mailbox u d a")
    case True
    then have "\<forall>b \<in> set rows. \<not> active_mailbox u d b"
      using Cons.prems(1) by (auto simp: uq_username_domain_def active_mailbox_def image_iff)
    then have "find (active_mailbox u d) rows = None"
      by (simp add: find_None_iff)
    moreover have "\<not> active_mailbox u d (a\<lparr>deleted_at := Some t, updated_at := t'\<rparr>)"
      by (simp add: active_mailbox_def)
    ultimately show ?thesis using True by simp
  next
    case False
    with Cons.prems have "find (active_mailbox u d) rows = Some r" by simp
    moreover from Cons.prems(1) have "uq_username_domain rows"
      by (simp add: uq_username_domain_def)
    ultimately show ?thesis using False Cons.IH by simp
  qed
qed

subsection \<open>Mutating operations\<close>

lemma guards_effective:
  "guards e u d = Inr dd \<Longrightarrow> dd = get_effective_domain u d (default_domain e)"
  by (auto simp: guards_def Let_def split: sum.splits)

lemma create_email_remote_fails:
  "isl (fst (client_create_email (env_pq e) (env_post e)
               (get_da_client e (get_effective_domain u (req_domain req) (default_domain e)))
               (req_username req) (req_password req) (req_quota_mb req)))
   \<Longrightarrow> fst (snd (create_email e req u rows)) = rows"
  by (auto simp: create_email_def dest!: guards_effective
      split: sum.splits option.splits prod.splits)

lemma delete_email_remote_fails:
  "isl (fst (client_delete_email (env_pq e) (env_post e)
               (get_da_client e (get_effective_domain u d (default_domain e))) uname))
   \<Longrightarrow> fst (snd (delete_email e uname u d rows)) = rows"
  by (auto simp: delete_email_def dest!: guards_effective
      split: sum.splits option.splits prod.splits)

lemma change_password_remote_fails:
  "isl (fst (client_change_password (env_pq e) (env_post e)
               (get_da_client e (get_effective_domain u d (default_domain e)))
               [PStr uname, PStr pw]))
   \<Longrightarrow> fst (snd (change_password e uname pw u d rows)) = rows"
  by (auto simp: change_password_def dest!: guards_effective
      split: sum.splits option.splits prod.splits)

lemma delete_email_error_unchanged:
  "fst (delete_email e uname u d rows) = Inl err
   \<Longrightarrow> fst (snd (delete_email e uname u d rows)) = rows"
  by (auto simp: delete_email_def split: sum.splits option.splits prod.splits)

lemma change_password_error_unchanged:
  "fst (change_password e uname pw u d rows) = Inl err
   \<Longrightarrow> fst (snd (change_password e uname pw u d rows)) = rows"
  by (auto simp: change_password_def split: sum.splits option.splits prod.splits)

lemma delete_email_success:
  assumes "delete_email e uname u d rows = (Inr msg, rows', es)"
  shows "\<exists>ces r. guards e u d = Inr (get_effective_domain u d (default_domain e))
           \<and> find (active_mailbox uname (get_effective_domain u d (default_domain e))) rows = Some r
           \<and> client_delete_email (env_pq e) (env_post e)
                (get_da_client e (get_effective_domain u d (default_domain e))) uname
              = (Inr (), ces)
           \<and> es = Select uname (get_effective_domain u d (default_domain e)) True # ces @ [Commit]
           \<and> rows' = update_first
                        (active_mailbox uname (get_effective_domain u d (default_domain e)))
                        (\<lambda>a. a\<lparr>deleted_at := Some (env_clock e 0), updated_at := env_clock e 1\<rparr>)
                        rows"
  using assms
  by (auto simp: delete_email_def dest!: guards_effective
      split: sum.splits option.splits prod.splits)

lemma create_email_committed:
  assumes "fst (snd (create_email e req u rows)) \<noteq> rows"
  shows "\<exists>ces r. client_create_email (env_pq e) (env_post e)
                (get_da_client e (get_effective_domain u (req_domain req) (default_domain e)))
                (req_username req) (req_password req) (req_quota_mb req)
              = (Inr (), ces)
           \<and> create_email e req u rows
               = (Inl (HTTPException 500 (Str_detail AttributeError)), rows @ [r],
                  Select (req_username req)
                    (get_effective_domain u (req_domain req) (default_domain e)) True
                  # ces @ [Commit])
           \<and> deleted_at r = None"
  using assms
  by (auto simp: create_email_def db_insert_def notify_email_def to_http_def Let_def
      dest!: guards_effective split: sum.splits option.splits prod.splits if_splits)

lemma change_password_success:
  assumes "change_password e uname pw u d rows = (Inr msg, rows', es)"
  shows "\<exists>ces. client_change_password (env_pq e) (env_post e)
                (get_da_client e (get_effective_domain u d (default_domain e)))
                [PStr uname, PStr pw]
              = (Inr (), ces)
           \<and> es = Select uname (get_effective_domain u d (default_domain e)) True # ces @ [Commit]
           \<and> rows' = update_first
                        (active_mailbox uname (get_effective_domain u d (default_domain e)))
                        (\<lambda>a. a\<lparr>updated_at := env_clock e 0\<rparr>) rows"
  using assms
  by (auto simp: change_password_def dest!: guards_effective
      split: sum.splits option.splits prod.splits)

lemma update_first_found:
  "find P rows = Some r \<Longrightarrow> f r \<in> set (update_first P f rows)"
  by (induction rows) (auto split: if_splits)

lemma delete_twice:
  assumes uq: "uq_username_domain rows"
    and first: "delete_email e uname u d rows = (Inr msg, rows', es)"
    and cfg: "default_domain e2 = default_domain e"
  shows "delete_email e2 uname u d rows'
         = (Inl (HTTPException 404
                  (Detail (''Email '' @ uname @ ''@''
                           @ get_effective_domain u d (default_domain e) @ '' not found''))),
            rows', [Select uname (get_effective_domain u d (default_domain e)) True])"
proof -
  let ?d = "get_effective_domain u d (default_domain e)"
  from delete_email_success [OF first] obtain ces r where
    g: "guards e u d = Inr ?d"
    and f: "find (active_mailbox uname ?d) rows = Some r"
    and r: "rows' = update_first (active_mailbox uname ?d)
              (\<lambda>a. a\<lparr>deleted_at := Some (env_clock e 0), updated_at := env_clock e 1\<rparr>) rows"
    by blast
  from g have g2: "guards e2 u d = Inr ?d" unfolding guards_def cfg .
  from uq f have "find (active_mailbox uname ?d) rows' = None"
    unfolding r by (rule soft_delete_leaves_none_active)
  with g2 show ?thesis by (simp add: delete_email_def)
qed

lemma example_password: "validate_password ''TestPass123!'' = Inr ()"
  by (simp add: validate_password_def re_search_def is_upper_def is_lower_def is_digit_def)

lemma example_create_client:
  "client_create_email (env_pq example_env) (env_post example_env)
     (get_da_client example_env ''x.com'') ''alice'' ''TestPass123!'' 500
   = (Inr (),
      [Post ''https://da.example.com:2222/CMD_API_POP''
         [(''action'', PStr ''create''), (''domain'', PStr ''x.com''), (''user'', PStr ''alice''),
          (''passwd'', PStr ''TestPass123!''), (''passwd2'', PStr ''TestPass123!''),
          (''quota'', PInt 500)]])"
  by (simp add: client_create_email_def make_request_three failed_def is_success_def body_of_def
      example_env_def example_pq_def get_da_client_def rstrip_slash_def
      parse_response_error Let_def)

lemma example_delete_client:
  "client_delete_email (env_pq example_env) (env_post example_env)
     (get_da_client example_env ''x.com'') ''alice''
   = (Inr (),
      [Post ''https://da.example.com:2222/CMD_API_POP''
         [(''action'', PStr ''delete''), (''domain'', PStr ''x.com''), (''user'', PStr ''alice'')]])"
  by (simp add: client_delete_email_def make_request_three failed_def is_success_def body_of_def
      example_env_def example_pq_def get_da_client_def rstrip_slash_def
      parse_response_error Let_def)

lemma example_create:
  "create_email example_env create_alice example_admin []
   = (Inl (HTTPException 500 (Str_detail AttributeError)), [alice],
      [Select ''alice'' ''x.com'' True,
       Post ''https://da.example.com:2222/CMD_API_POP''
         [(''action'', PStr ''create''), (''domain'', PStr ''x.com''), (''user'', PStr ''alice''),
          (''passwd'', PStr ''TestPass123!''), (''passwd2'', PStr ''TestPass123!''),
          (''quota'', PInt 500)],
       Commit])"
proof -
  have g: "guards example_env example_admin (req_domain create_alice) = Inr ''x.com''"
    using example_guards by (simp add: create_alice_def)
  have v: "validate_password (req_password create_alice) = Inr ()"
    using example_password by (simp add: create_alice_def)
  have c: "client_create_email (env_pq example_env) (env_post example_env)
             (get_da_client example_env ''x.com'') (req_username create_alice)
             (req_password create_alice) (req_quota_mb create_alice)
           = (Inr (),
      [Post ''https://da.example.com:2222/CMD_API_POP''
         [(''action'', PStr ''create''), (''domain'', PStr ''x.com''), (''user'', PStr ''alice''),
          (''passwd'', PStr ''TestPass123!''), (''passwd2'', PStr ''TestPass123!''),
          (''quota'', PInt 500)]])"
    using example_create_client by (simp add: create_alice_def)
  show ?thesis
    apply (simp only: create_email_def v g sum.case c prod.case)
    apply (simp add: create_alice_def example_admin_def example_env_def db_insert_def next_id_def
        alice_def notify_email_def to_http_def Let_def)
    done
qed

lemma example_delete:
  "delete_email example_env ''alice'' example_admin None [alice]
   = (Inr ''Email alice@x.com deleted successfully'',
      [alice\<lparr>deleted_at := Some 1000, updated_at := 1001\<rparr>],
      [Select ''alice'' ''x.com'' True,
       Post ''https://da.example.com:2222/CMD_API_POP''
         [(''action'', PStr ''delete''), (''domain'', PStr ''x.com''), (''user'', PStr ''alice'')],
       Commit])"
  apply (simp only: delete_email_def example_guards sum.case example_delete_client prod.case)
  apply (simp add: alice_def active_mailbox_def example_env_def)
  done

lemma example_down_client:
  "isl (fst (client_delete_email (env_pq env_down) (env_post env_down)
               (get_da_client env_down ''x.com'') ''alice''))"
  by (simp add: client_delete_email_def make_request_three failed_def env_down_def
      failure_error_def Let_def)

lemma reachable_alice: "reachable [alice]"
  using reachable.created [OF reachable.start, of example_env create_alice example_admin]
  by (simp add: example_create)

text \<open>
  C7. In a table that the endpoints can reach, for create, delete and change-password:
  when the remote call raises, the table is left as it was; a successful operation
  has made its remote call (the client's POSTs and sleeps) before its commit, which
  ends the trace. A create that writes its row has had its remote call succeed before
  the commit; it then answers 500, because reading \<open>request.notify_email\<close> raises after
  the commit. A successful delete sets \<open>deleted_at\<close> and \<open>updated_at\<close> on the
  found row and removes no row (the ids are unchanged), and the same delete issued
  again fails with 404 Not Found, touching nothing.
\<close>

theorem mutations_remote_first:
  assumes reach: "reachable rows" and cfg: "default_domain e2 = default_domain e"
  shows
   "(isl (fst (client_create_email (env_pq e) (env_post e)
                 (get_da_client e (get_effective_domain u (req_domain req) (default_domain e)))
                 (req_username req) (req_password req) (req_quota_mb req)))
      \<longrightarrow> fst (snd (create_email e req u rows)) = rows)
    \<and> (isl (fst (client_delete_email (env_pq e) (env_post e)
                 (get_da_client e (get_effective_domain u d (default_domain e))) uname))
      \<longrightarrow> fst (snd (delete_email e uname u d rows)) = rows)
    \<and> (isl (fst (client_change_password (env_pq e) (env_post e)
                 (get_da_client e (get_effective_domain u d (default_domain e)))
                 [PStr uname, PStr pw]))
      \<longrightarrow> fst (snd (change_password e uname pw u d rows)) = rows)
    \<and> (fst (snd (create_email e req u rows)) \<noteq> rows \<longrightarrow>
          (\<exists>ces r.
             client_create_email (env_pq e) (env_post e)
               (get_da_client e (get_effective_domain u (req_domain req) (default_domain e)))
               (req_username req) (req_password req) (req_quota_mb req) = (Inr (), ces)
             \<and> create_email e req u rows
                 = (Inl (HTTPException 500 (Str_detail AttributeError)), rows @ [r],
                    Select (req_username req)
                      (get_effective_domain u (req_domain req) (default_domain e)) True
                    # ces @ [Commit])
             \<and> deleted_at r = None))
    \<and> (\<forall>msg rows' es. change_password e uname pw u d rows = (Inr msg, rows', es) \<longrightarrow>
          (\<exists>ces.
             client_change_password (env_pq e) (env_post e)
               (get_da_client e (get_effective_domain u d (default_domain e)))
               [PStr uname, PStr pw] = (Inr (), ces)
             \<and> es = Select uname (get_effective_domain u d (default_domain e)) True
                    # ces @ [Commit]
             \<and> rows' = update_first
                          (active_mailbox uname (get_effective_domain u d (default_domain e)))
                          (\<lambda>a. a\<lparr>updated_at := env_clock e 0\<rparr>) rows))
    \<and> (\<forall>msg rows' es. delete_email e uname u d rows = (Inr msg, rows', es) \<longrightarrow>
          (\<exists>ces r.
             client_delete_email (env_pq e) (env_post e)
               (get_da_client e (get_effective_domain u d (default_domain e))) uname
               = (Inr (), ces)
             \<and> es = Select uname (get_effective_domain u d (default_domain e)) True
                    # ces @ [Commit]
             \<and> find (active_mailbox uname (get_effective_domain u d (default_domain e))) rows
                 = Some r
             \<and> rows' = update_first
                          (active_mailbox uname (get_effective_domain u d (default_domain e)))
                          (\<lambda>a. a\<lparr>deleted_at := Some (env_clock e 0),
                                  updated_at := env_clock e 1\<rparr>) rows
             \<and> r\<lparr>deleted_at := Some (env_clock e 0), updated_at := env_clock e 1\<rparr> \<in> set rows'
             \<and> map acct_id rows' = map acct_id rows)
          \<and> delete_email e2 uname u d rows'
              = (Inl (HTTPException 404
                       (Detail (''Email '' @ uname @ ''@''
                                @ get_effective_domain u d (default_domain e) @ '' not found''))),
                 rows', [Select uname (get_effective_domain u d (default_domain e)) True]))"
proof (intro conjI allI impI)
  assume "fst (snd (create_email e req u rows)) \<noteq> rows"
  from create_email_committed [OF this]
  show "\<exists>ces r.
          client_create_email (env_pq e) (env_post e)
            (get_da_client e (get_effective_domain u (req_domain req) (default_domain e)))
            (req_username req) (req_password req) (req_quota_mb req) = (Inr (), ces)
          \<and> create_email e req u rows
              = (Inl (HTTPException 500 (Str_detail AttributeError)), rows @ [r],
                 Select (req_username req)
                   (get_effective_domain u (req_domain req) (default_domain e)) True
                 # ces @ [Commit])
          \<and> deleted_at r = None"
    by blast
next
  fix msg rows' es
  assume "change_password e uname pw u d rows = (Inr msg, rows', es)"
  from change_password_success [OF this]
  show "\<exists>ces.
          client_change_password (env_pq e) (env_post e)
            (get_da_client e (get_effective_domain u d (default_domain e)))
            [PStr uname, PStr pw] = (Inr (), ces)
          \<and> es = Select uname (get_effective_domain u d (default_domain e)) True
                 # ces @ [Commit]
          \<and> rows' = update_first
                       (active_mailbox uname (get_effective_domain u d (default_domain e)))
                       (\<lambda>a. a\<lparr>updated_at := env_clock e 0\<rparr>) rows"
    by blast
next
  fix msg rows' es
  assume run: "delete_email e uname u d rows = (Inr msg, rows', es)"
  let ?d = "get_effective_domain u d (default_domain e)"
  let ?f = "\<lambda>a. a\<lparr>deleted_at := Some (env_clock e 0), updated_at := env_clock e 1\<rparr>"
  from delete_email_success [OF run] obtain ces r where
    c: "client_delete_email (env_pq e) (env_post e) (get_da_client e ?d) uname = (Inr (), ces)"
    and es: "es = Select uname ?d True # ces @ [Commit]"
    and f: "find (active_mailbox uname ?d) rows = Some r"
    and r: "rows' = update_first (active_mailbox uname ?d) ?f rows"
    by blast
  have "?f r \<in> set rows'" unfolding r using f by (rule update_first_found)
  moreover have "map acct_id rows' = map acct_id rows"
    unfolding r by (rule update_first_ids) simp
  ultimately
  show "\<exists>ces r.
          client_delete_email (env_pq e) (env_post e) (get_da_client e ?d) uname = (Inr (), ces)
          \<and> es = Select uname ?d True # ces @ [Commit]
          \<and> find (active_mailbox uname ?d) rows = Some r
          \<and> rows' = update_first (active_mailbox uname ?d) ?f rows
          \<and> r\<lparr>deleted_at := Some (env_clock e 0), updated_at := env_clock e 1\<rparr> \<in> set rows'
          \<and> map acct_id rows' = map acct_id rows"
    using c es f r by blast
  from reach have "uq_username_domain rows" by (rule reachable_uq)
  then show "delete_email e2 uname u d rows'
      = (Inl (HTTPException 404 (Detail (''Email '' @ uname @ ''@'' @ ?d @ '' not found''))),
         rows', [Select uname ?d True])"
    using run cfg by (rule delete_twice)
qed (rule create_email_remote_fails delete_email_remote_fails change_password_remote_fails,
     assumption)+

theorem mutations_remote_first_witness:
  "reachable [alice]
   \<and> fst (snd (delete_email env_down ''alice'' example_admin None [alice])) = [alice]
   \<and> delete_email example_env ''alice'' example_admin None [alice]
     = (Inr ''Email alice@x.com deleted successfully'',
        [alice\<lparr>deleted_at := Some 1000, updated_at := 1001\<rparr>],
        [Select ''alice'' ''x.com'' True,
         Post ''https://da.example.com:2222/CMD_API_POP''
           [(''action'', PStr ''delete''), (''domain'', PStr ''x.com''), (''user'', PStr ''alice'')],
         Commit])
   \<and> delete_email example_env ''alice'' example_admin None
        [alice\<lparr>deleted_at := Some 1000, updated_at := 1001\<rparr>]
     = (Inl (HTTPException 404 (Detail ''Email alice@x.com not found'')),
        [alice\<lparr>deleted_at := Some 1000, updated_at := 1001\<rparr>],
        [Select ''alice'' ''x.com'' True])"
proof -
  have eff: "get_effective_domain example_admin None (default_domain env_down) = ''x.com''"
    using example_eff by (simp add: env_down_def)
  have down: "isl (fst (client_delete_email (env_pq env_down) (env_post env_down)
               (get_da_client env_down
                  (get_effective_domain example_admin None (default_domain env_down)))
               ''alice''))"
    using example_down_client by (simp add: eff)
  from mutations_remote_first [OF reachable_alice refl,
      of env_down example_admin create_alice None "''alice''" "''TestPass123!''"] down
  have 1: "fst (snd (delete_email env_down ''alice'' example_admin None [alice])) = [alice]"
    by blast
  from mutations_remote_first [OF reachable_alice refl,
      of example_env example_admin create_alice None "''alice''" "''TestPass123!''"]
    example_delete
  have 2: "delete_email example_env ''alice'' example_admin None
             [alice\<lparr>deleted_at := Some 1000, updated_at := 1001\<rparr>]
           = (Inl (HTTPException 404 (Detail ''Email alice@x.com not found'')),
              [alice\<lparr>deleted_at := Some 1000, updated_at := 1001\<rparr>],
              [Select ''alice'' ''x.com'' True])"
    by (simp add: example_eff)
  from reachable_alice 1 example_delete 2 show ?thesis by simp
qed

subsection \<open>Re-creation after a soft delete\<close>

lemma reachable_alice_soft_deleted: "reachable [alice_soft_deleted]"
  using reachable.deleted [OF reachable_alice, of example_env "''alice''" example_admin None]
  by (simp add: example_delete alice_soft_deleted_def)

text \<open>
  C8. Re-creation through \<open>POST /emails\<close>. The table's constraint spans deleted rows,
  while the existence check of \<open>create_email\<close> looks at active rows only. For a mailbox
  that was created and then soft-deleted (a reachable table), creating it again passes
  the check and creates the remote mailbox; the insert then raises \<open>IntegrityError\<close>,
  the endpoint answers 500, and the row stays soft-deleted: its delete timestamp is
  not cleared, as the reconciliation pass would do.
\<close>

theorem create_email_after_soft_delete:
  "reachable [alice_soft_deleted]
   \<and> create_email example_env create_alice example_admin [alice_soft_deleted]
     = (Inl (HTTPException 500 (Str_detail IntegrityError)), [alice_soft_deleted],
        [Select ''alice'' ''x.com'' True,
         Post ''https://da.example.com:2222/CMD_API_POP''
           [(''action'', PStr ''create''), (''domain'', PStr ''x.com''), (''user'', PStr ''alice''),
            (''passwd'', PStr ''TestPass123!''), (''passwd2'', PStr ''TestPass123!''),
            (''quota'', PInt 500)]])"
proof -
  have g: "guards example_env example_admin (req_domain create_alice) = Inr ''x.com''"
    using example_guards by (simp add: create_alice_def)
  have v: "validate_password (req_password create_alice) = Inr ()"
    using example_password by (simp add: create_alice_def)
  have c: "client_create_email (env_pq example_env) (env_post example_env)
             (get_da_client example_env ''x.com'') (req_username create_alice)
             (req_password create_alice) (req_quota_mb create_alice)
           = (Inr (),
      [Post ''https://da.example.com:2222/CMD_API_POP''
         [(''action'', PStr ''create''), (''domain'', PStr ''x.com''), (''user'', PStr ''alice''),
          (''passwd'', PStr ''TestPass123!''), (''passwd2'', PStr ''TestPass123!''),
          (''quota'', PInt 500)]])"
    using example_create_client by (simp add: create_alice_def)
  have "create_email example_env create_alice example_admin [alice_soft_deleted]
     = (Inl (HTTPException 500 (Str_detail IntegrityError)), [alice_soft_deleted],
        [Select ''alice'' ''x.com'' True,
         Post ''https://da.example.com:2222/CMD_API_POP''
           [(''action'', PStr ''create''), (''domain'', PStr ''x.com''), (''user'', PStr ''alice''),
            (''passwd'', PStr ''TestPass123!''), (''passwd2'', PStr ''TestPass123!''),
            (''quota'', PInt 500)]])"
    apply (simp only: create_email_def v g sum.case c prod.case)
    apply (simp add: create_alice_def example_admin_def example_env_def db_insert_def
        alice_def alice_soft_deleted_def active_mailbox_def same_mailbox_def to_http_def Let_def)
    done
  with reachable_alice_soft_deleted show ?thesis by simp
qed

subsection \<open>Tamper check\<close>

lemma guards_tamper:
  "user_role u = DOMAIN_ADMIN \<Longrightarrow> d \<noteq> [] \<Longrightarrow> Some d \<noteq> user_domain u
   \<Longrightarrow> guards e u (Some d) = Inl (forbidden_tamper u)"
  by (simp add: guards_def check_domain_param_tampering_def truthy_def forbidden_tamper_def)

text \<open>
  C2. For a domain_admin and a supplied, non-empty domain parameter that is not the
  assigned domain: list and delete fail with 403 Forbidden; create and change-password
  validate the password first, so they fail with the 400 of a weak password or, once
  the password is valid, with the same 403. In every case the table is untouched and
  the trace is empty: no mailbox lookup and no remote call has happened.
\<close>

theorem tamper_check_first:
  assumes "user_role u = DOMAIN_ADMIN" and "d \<noteq> []" and "Some d \<noteq> user_domain u"
  shows "list_emails e u (Some d) rows = (Inl (forbidden_tamper u), rows, [])
    \<and> delete_email e uname u (Some d) rows = (Inl (forbidden_tamper u), rows, [])
    \<and> create_email e (req\<lparr>req_domain := Some d\<rparr>) u rows
        = (case validate_password (req_password req) of
             Inl weak \<Rightarrow> (Inl weak, rows, [])
           | Inr ok \<Rightarrow> (Inl (forbidden_tamper u), rows, []))
    \<and> change_password e uname pw u (Some d) rows
        = (case validate_password pw of
             Inl weak \<Rightarrow> (Inl weak, rows, [])
           | Inr ok \<Rightarrow> (Inl (forbidden_tamper u), rows, []))"
  using guards_tamper [OF assms, of e]
  by (simp add: list_emails_def delete_email_def create_email_def change_password_def
      split: sum.splits)

text \<open>
  The parameter must be non-empty and the password valid: an empty domain parameter
  differs from the assigned domain and is ignored (the delete goes on to look the
  mailbox up, in the assigned domain), and a weak password is answered with 400 before
  the tamper check.
\<close>

theorem tamper_check_counterexample:
  "user_role example_domain_admin = DOMAIN_ADMIN
   \<and> Some '''' \<noteq> user_domain example_domain_admin
   \<and> delete_email example_env ''alice'' example_domain_admin (Some '''') []
      = (Inl (HTTPException 404 (Detail ''Email alice@a.com not found'')), [],
         [Select ''alice'' ''a.com'' True])
   \<and> Some ''b.com'' \<noteq> user_domain example_domain_admin
   \<and> req_domain weak_request = Some ''b.com''
   \<and> create_email example_env weak_request example_domain_admin []
      = (Inl (HTTPException 400
                (Detail ''Password must contain at least one uppercase letter'')), [], [])"
proof -
  have "guards example_env example_domain_admin (Some '''') = Inr ''a.com''"
    by (simp add: guards_def check_domain_param_tampering_def truthy_def
        get_effective_domain_def or_default_def check_domain_access_def can_access_domain_def
        example_domain_admin_def)
  then have "delete_email example_env ''alice'' example_domain_admin (Some '''') []
      = (Inl (HTTPException 404 (Detail ''Email alice@a.com not found'')), [],
         [Select ''alice'' ''a.com'' True])"
    by (simp add: delete_email_def)
  moreover have "create_email example_env weak_request example_domain_admin []
      = (Inl (HTTPException 400
                (Detail ''Password must contain at least one uppercase letter'')), [], [])"
    using validate_testpass by (simp add: create_email_def weak_request_def msg_upper_def)
  ultimately show ?thesis
    by (simp add: example_domain_admin_def weak_request_def)
qed

theorem tamper_check_first_witness:
  "user_role example_domain_admin = DOMAIN_ADMIN \<and> ''b.com'' \<noteq> []
   \<and> Some ''b.com'' \<noteq> user_domain example_domain_admin
   \<and> list_emails example_env example_domain_admin (Some ''b.com'') [alice]
      = (Inl (HTTPException 403 (Detail ''Access denied: domain_admin can only access a.com'')),
         [alice], [])
   \<and> delete_email example_env ''alice'' example_domain_admin (Some ''b.com'') [alice]
      = (Inl (HTTPException 403 (Detail ''Access denied: domain_admin can only access a.com'')),
         [alice], [])
   \<and> create_email example_env (create_alice\<lparr>req_domain := Some ''b.com''\<rparr>)
        example_domain_admin [alice]
      = (Inl (HTTPException 403 (Detail ''Access denied: domain_admin can only access a.com'')),
         [alice], [])
   \<and> change_password example_env ''alice'' ''TestPass123!'' example_domain_admin
        (Some ''b.com'') [alice]
      = (Inl (HTTPException 403 (Detail ''Access denied: domain_admin can only access a.com'')),
         [alice], [])"
proof -
  have r: "user_role example_domain_admin = DOMAIN_ADMIN"
    and n: "''b.com'' \<noteq> []"
    and t: "Some ''b.com'' \<noteq> user_domain example_domain_admin"
    by (simp_all add: example_domain_admin_def)
  have f: "forbidden_tamper example_domain_admin
           = HTTPException 403 (Detail ''Access denied: domain_admin can only access a.com'')"
    by (simp add: forbidden_tamper_def example_domain_admin_def str_opt_def)
  have p: "validate_password (req_password create_alice) = Inr ()"
    using example_password by (simp add: create_alice_def)
  from tamper_check_first [OF r n t, of example_env "[alice]" "''alice''" create_alice
      "''TestPass123!''"] r n t
  show ?thesis by (simp add: f p example_password)
qed

subsection \<open>Password reset\<close>




subsection \<open>Token service\<close>

lemma decode_single_failure:
  "(\<exists>payload. decode_access_token mac py_int secret now tok = Inr payload)
   \<or> decode_access_token mac py_int secret now tok = Inl credentials_exception"
  by (simp add: decode_access_token_def split: sum.splits)

lemma issued_token:
  "create_access_token mac secret mins t0 (token_data uid email role) ttl
   = Signed ((token_data uid email role)(''exp'' \<mapsto> JInt (expiry mins t0 ttl)))
       (mac secret ((token_data uid email role)(''exp'' \<mapsto> JInt (expiry mins t0 ttl))))"
  by (simp add: create_access_token_def jwt_encode_def Let_def)

lemma validate_issued:
  "validate_claims py_int now ((token_data uid email role)(''exp'' \<mapsto> JInt x))
   = (if x < now then Some ExpiredSignatureError else None)"
  by (simp add: validate_claims_def token_data_def int_claim_def)

lemma decode_issued:
  "decode_access_token mac py_int secret now
     (create_access_token mac secret mins t0 (token_data uid email role) ttl)
   = (if expiry mins t0 ttl < now then Inl credentials_exception
      else Inr ((token_data uid email role)(''exp'' \<mapsto> JInt (expiry mins t0 ttl))))"
  by (simp add: decode_access_token_def jwt_decode_def issued_token validate_issued)

text \<open>
  C3. Token round trip. A token issued at \<open>t0\<close> for an identity id, email and role
  expires at \<open>t0 + d\<close> for a time-to-live \<open>d\<close> other than zero, and at
  \<open>t0 + 60 * JWT_EXPIRE_MINUTES\<close> when no time-to-live (or a zero one) is given.
  Validated at a time up to and including that instant, it yields exactly the issued
  claims and the expiry; validated after it, it fails, and so do a malformed token
  and a token whose signature is not the MAC of its claims. Every failure is the one
  exception 401 \<open>Could not validate credentials\<close>: validation returns claims or that
  exception, nothing else.
\<close>

theorem token_round_trip:
  "(d \<noteq> 0 \<and> now \<le> t0 + d \<longrightarrow>
      decode_access_token mac py_int secret now
        (create_access_token mac secret mins t0 (token_data uid email role) (Some d))
      = Inr ((token_data uid email role)(''exp'' \<mapsto> JInt (t0 + d))))
   \<and> (d \<noteq> 0 \<and> t0 + d < now \<longrightarrow>
      decode_access_token mac py_int secret now
        (create_access_token mac secret mins t0 (token_data uid email role) (Some d))
      = Inl credentials_exception)
   \<and> (now \<le> t0 + 60 * mins \<longrightarrow>
      decode_access_token mac py_int secret now
        (create_access_token mac secret mins t0 (token_data uid email role) None)
      = Inr ((token_data uid email role)(''exp'' \<mapsto> JInt (t0 + 60 * mins))))
   \<and> (t0 + 60 * mins < now \<longrightarrow>
      decode_access_token mac py_int secret now
        (create_access_token mac secret mins t0 (token_data uid email role) None)
      = Inl credentials_exception)
   \<and> create_access_token mac secret mins t0 (token_data uid email role) (Some 0)
      = create_access_token mac secret mins t0 (token_data uid email role) None
   \<and> ((token_data uid email role)(''exp'' \<mapsto> JInt x)) ''user_id'' = Some (JInt uid)
   \<and> ((token_data uid email role)(''exp'' \<mapsto> JInt x)) ''email'' = Some (JStr email)
   \<and> ((token_data uid email role)(''exp'' \<mapsto> JInt x)) ''role'' = Some (JStr (role_value role))
   \<and> decode_access_token mac py_int secret now (Malformed raw) = Inl credentials_exception
   \<and> (tag \<noteq> mac secret payload' \<longrightarrow>
        decode_access_token mac py_int secret now (Signed payload' tag)
        = Inl credentials_exception)
   \<and> ((\<exists>payload. decode_access_token mac py_int secret now tok = Inr payload)
        \<or> decode_access_token mac py_int secret now tok = Inl credentials_exception)"
proof (intro conjI impI)
  show "(\<exists>payload. decode_access_token mac py_int secret now tok = Inr payload)
        \<or> decode_access_token mac py_int secret now tok = Inl credentials_exception"
    by (rule decode_single_failure)
  show "decode_access_token mac py_int secret now (Malformed raw) = Inl credentials_exception"
    by (simp add: decode_access_token_def jwt_decode_def)
  show "create_access_token mac secret mins t0 (token_data uid email role) (Some 0)
      = create_access_token mac secret mins t0 (token_data uid email role) None"
    by (simp add: issued_token expiry_def timedelta_truthy_def)
next
  assume "tag \<noteq> mac secret payload'"
  then show "decode_access_token mac py_int secret now (Signed payload' tag)
             = Inl credentials_exception"
    by (simp add: decode_access_token_def jwt_decode_def)
next
  assume "d \<noteq> 0 \<and> now \<le> t0 + d"
  then show "decode_access_token mac py_int secret now
        (create_access_token mac secret mins t0 (token_data uid email role) (Some d))
      = Inr ((token_data uid email role)(''exp'' \<mapsto> JInt (t0 + d)))"
    by (simp add: decode_issued expiry_def timedelta_truthy_def)
next
  assume "d \<noteq> 0 \<and> t0 + d < now"
  then show "decode_access_token mac py_int secret now
        (create_access_token mac secret mins t0 (token_data uid email role) (Some d))
      = Inl credentials_exception"
    by (simp add: decode_issued expiry_def timedelta_truthy_def)
next
  assume "now \<le> t0 + 60 * mins"
  then show "decode_access_token mac py_int secret now
        (create_access_token mac secret mins t0 (token_data uid email role) None)
      = Inr ((token_data uid email role)(''exp'' \<mapsto> JInt (t0 + 60 * mins)))"
    by (simp add: decode_issued expiry_def timedelta_truthy_def)
next
  assume "t0 + 60 * mins < now"
  then show "decode_access_token mac py_int secret now
        (create_access_token mac secret mins t0 (token_data uid email role) None)
      = Inl credentials_exception"
    by (simp add: decode_issued expiry_def timedelta_truthy_def)
qed (simp_all add: token_data_def)

text \<open>
  At the instant of expiry the token is still accepted: issued at 1000 with a
  time-to-live of 3600 seconds and validated at 4600, when that time has elapsed, it
  yields its claims.
\<close>

theorem token_round_trip_counterexample:
  "(1000::int) + 3600 = 4600
   \<and> decode_access_token example_mac example_int ''s3cret'' 4600
        (create_access_token example_mac ''s3cret'' 1440 1000
           (token_data 1 ''root@x.com'' ADMIN) (Some 3600))
      = Inr ((token_data 1 ''root@x.com'' ADMIN)(''exp'' \<mapsto> JInt 4600))"
  by (simp add: decode_issued expiry_def timedelta_truthy_def)

theorem token_round_trip_witness:
  "(3600::int) \<noteq> 0 \<and> (2000::int) \<le> 1000 + 3600
   \<and> decode_access_token example_mac example_int ''s3cret'' 2000
        (create_access_token example_mac ''s3cret'' 1440 1000
           (token_data 1 ''root@x.com'' ADMIN) (Some 3600))
      = Inr ((token_data 1 ''root@x.com'' ADMIN)(''exp'' \<mapsto> JInt 4600))
   \<and> (1000::int) + 3600 < 5000
   \<and> decode_access_token example_mac example_int ''s3cret'' 5000
        (create_access_token example_mac ''s3cret'' 1440 1000
           (token_data 1 ''root@x.com'' ADMIN) (Some 3600))
      = Inl (HTTPException 401 (Detail ''Could not validate credentials''))
   \<and> (2000::int) \<le> 1000 + 60 * 1440
   \<and> decode_access_token example_mac example_int ''s3cret'' 2000
        (create_access_token example_mac ''s3cret'' 1440 1000
           (token_data 1 ''root@x.com'' ADMIN) None)
      = Inr ((token_data 1 ''root@x.com'' ADMIN)(''exp'' \<mapsto> JInt 87400))
   \<and> (1000::int) + 60 * 1440 < 90000
   \<and> decode_access_token example_mac example_int ''s3cret'' 90000
        (create_access_token example_mac ''s3cret'' 1440 1000
           (token_data 1 ''root@x.com'' ADMIN) None)
      = Inl (HTTPException 401 (Detail ''Could not validate credentials''))
   \<and> (''forged'', None, None) \<noteq> example_mac ''s3cret'' (token_data 1 ''root@x.com'' ADMIN)
   \<and> decode_access_token example_mac example_int ''s3cret'' 2000
        (Signed (token_data 1 ''root@x.com'' ADMIN) (''forged'', None, None))
      = Inl (HTTPException 401 (Detail ''Could not validate credentials''))"
proof -
  have f: "(''forged'', None, None) \<noteq> example_mac ''s3cret'' (token_data 1 ''root@x.com'' ADMIN)"
    by (simp add: example_mac_def)
  note early = token_round_trip [of 3600 2000 1000 example_mac example_int "''s3cret''" 1440 1
      "''root@x.com''" ADMIN 0 "''x''" "(''forged'', None, None)"
      "token_data 1 ''root@x.com'' ADMIN"]
  note late = token_round_trip [of 3600 5000 1000 example_mac example_int "''s3cret''" 1440 1
      "''root@x.com''" ADMIN]
  note later = token_round_trip [of 3600 90000 1000 example_mac example_int "''s3cret''" 1440 1
      "''root@x.com''" ADMIN]
  from early
  have a: "decode_access_token example_mac example_int ''s3cret'' 2000
        (create_access_token example_mac ''s3cret'' 1440 1000
           (token_data 1 ''root@x.com'' ADMIN) (Some 3600))
      = Inr ((token_data 1 ''root@x.com'' ADMIN)(''exp'' \<mapsto> JInt 4600))"
    and a': "decode_access_token example_mac example_int ''s3cret'' 2000
        (create_access_token example_mac ''s3cret'' 1440 1000
           (token_data 1 ''root@x.com'' ADMIN) None)
      = Inr ((token_data 1 ''root@x.com'' ADMIN)(''exp'' \<mapsto> JInt 87400))"
    by simp_all
  from early f
  have c: "decode_access_token example_mac example_int ''s3cret'' 2000
        (Signed (token_data 1 ''root@x.com'' ADMIN) (''forged'', None, None))
      = Inl credentials_exception"
    by blast
  from late
  have b: "decode_access_token example_mac example_int ''s3cret'' 5000
        (create_access_token example_mac ''s3cret'' 1440 1000
           (token_data 1 ''root@x.com'' ADMIN) (Some 3600))
      = Inl credentials_exception"
    by simp
  from later
  have b': "decode_access_token example_mac example_int ''s3cret'' 90000
        (create_access_token example_mac ''s3cret'' 1440 1000
           (token_data 1 ''root@x.com'' ADMIN) None)
      = Inl credentials_exception"
    by simp
  from a a' b b' c f show ?thesis by (simp add: credentials_exception_def)
qed

end
